theory Spec2Isabelle
  imports Main
begin

section \<open>JavaScript values\<close>

text \<open>
  The values \<^verbatim>\<open>resolveStyles\<close> inspects. Primitives are separated from objects because
  the code branches on truthiness (\<^verbatim>\<open>!variables\<close>, \<^verbatim>\<open>if (styleObj)\<close>,
  \<^verbatim>\<open>classes[key] || classes[key] === ''\<close>), on \<^verbatim>\<open>typeof\<close> and on
  \<^verbatim>\<open>_.isPlainObject\<close> / \<^verbatim>\<open>_.isNil\<close>.
  Numbers are integers here; no branch of the code depends on a fraction or on NaN.
\<close>

datatype prim = PUndefined | PNull | PBool bool | PNum int | PStr string

text \<open>
  An object that the code only reads (props, variables, a debug payload) is given by its
  own enumerable properties in \<^verbatim>\<open>Object.keys\<close> order, with a flag telling whether
  lodash's \<^verbatim>\<open>isPlainObject\<close> accepts it (an object literal: yes; a class instance or
  an array: no). A function is opaque.
\<close>

datatype jsval = JPrim prim | JObject bool "(string \<times> jsval) list" | JFunction nat

fun truthy_prim :: "prim \<Rightarrow> bool" where
  "truthy_prim PUndefined = False"
| "truthy_prim PNull = False"
| "truthy_prim (PBool b) = b"
| "truthy_prim (PNum n) = (n \<noteq> 0)"
| "truthy_prim (PStr s) = (s \<noteq> [])"

fun truthy :: "jsval \<Rightarrow> bool" where
  "truthy (JPrim p) = truthy_prim p"
| "truthy (JObject plain fields) = True"
| "truthy (JFunction f) = True"

text \<open>\<^verbatim>\<open>_.isPlainObject(v)\<close> and \<^verbatim>\<open>_.isNil(v)\<close> of lodash.\<close>

fun isPlainObject :: "jsval \<Rightarrow> bool" where
  "isPlainObject (JObject plain fields) = plain"
| "isPlainObject v = False"

fun isNil :: "jsval \<Rightarrow> bool" where
  "isNil (JPrim PUndefined) = True"
| "isNil (JPrim PNull) = True"
| "isNil v = False"

text \<open>\<^verbatim>\<open>Object.keys(v)\<close> paired with the values \<^verbatim>\<open>v[key]\<close>.\<close>

fun entries :: "jsval \<Rightarrow> (string \<times> jsval) list" where
  "entries (JObject plain fields) = fields"
| "entries v = []"

section \<open>Style objects, themes and options\<close>

text \<open>
  A style object is mutated by the code (\<^verbatim>\<open>delete resolvedStyles[slotName]['_debug']\<close>)
  while the per-call memo and the theme cache both hold it, so style objects live in a
  store and are passed around by reference: the address is the index in the store. What a
  style function returns is a reference or, since the code guards with
  \<^verbatim>\<open>if (styleObj)\<close>, a primitive.
\<close>

type_synonym obj = "string \<rightharpoonup> jsval"

datatype styleval = SRef nat | SPrim prim

fun truthy_style :: "styleval \<Rightarrow> bool" where
  "truthy_style (SRef a) = True"
| "truthy_style (SPrim p) = truthy_prim p"

text \<open>A class name is a string or \<^verbatim>\<open>undefined\<close> (\<open>None\<close>); the empty string is falsy.\<close>

fun truthy_class :: "string option \<Rightarrow> bool" where
  "truthy_class None = False"
| "truthy_class (Some s) = (s \<noteq> [])"

record performance_flags =
  enableStylesCaching :: bool
  enableBooleanVariablesCaching :: bool
  enableSanitizeCssPlugin :: bool

text \<open>
  \<^verbatim>\<open>const { className, design, styles, variables, ...stylesProps } = props\<close>:
  the four special props and the rest object.
\<close>

record component_props =
  className :: "string option"
  design :: jsval
  styles :: jsval
  variables :: jsval
  stylesProps :: "(string \<times> jsval) list"

text \<open>
  \<^verbatim>\<open>ComponentStyleFunctionParam\<close>. The theme is carried by its identity: a theme holds
  style functions, which take this parameter.
\<close>

record styleParam =
  sp_props :: component_props
  sp_variables :: jsval
  sp_theme :: "nat option"
  sp_rtl :: bool
  sp_disableAnimations :: bool

text \<open>
  A style function may allocate its result or hand out an object that exists already, so
  it takes the store and returns it. A style set maps slot names to style functions.
\<close>

type_synonym style_fn = "styleParam \<Rightarrow> obj list \<Rightarrow> styleval \<times> obj list"

type_synonym styleset = "(string \<times> style_fn) list"

record theme =
  theme_id :: nat
  componentStyles :: "string \<rightharpoonup> styleset"

record rendererParam =
  direction :: string
  rp_disableAnimations :: bool
  displayName :: string
  sanitizeCss :: bool

text \<open>
  The arguments \<^verbatim>\<open>mergeComponentStyles\<close> receives: a prepared style set, a member of
  \<^verbatim>\<open>Object.prototype\<close> that a property read on \<^verbatim>\<open>theme.componentStyles\<close> found
  under the given name, the result of \<^verbatim>\<open>withDebugId({ root: value }, label)\<close>, or the
  falsy value that \<^verbatim>\<open>value && withDebugId(...)\<close> passes through.
\<close>

datatype merge_input =
  Prepared styleset | Inherited string | WithDebugId jsval string | Passed jsval

text \<open>
  What the module takes from its surroundings: \<^verbatim>\<open>process.env.NODE_ENV\<close> compared with
  \<^verbatim>\<open>'production'\<close>, the imported \<^verbatim>\<open>isDebugEnabled\<close> and
  \<^verbatim>\<open>mergeComponentStyles\<close>, the serializer \<^verbatim>\<open>JSON.stringify\<close> as a template
  literal renders its result, and the readings of \<^verbatim>\<open>performance.now()\<close> in the
  order they are taken. The collaborators are total here: a style function, the merge or
  the renderer throwing is not modelled.
\<close>

record host =
  production :: bool
  isDebugEnabled :: bool
  stringify :: "jsval \<Rightarrow> string"
  now :: "nat \<Rightarrow> int"
  mergeComponentStyles :: "merge_input list \<Rightarrow> styleset"

text \<open>
  \<^verbatim>\<open>ResolveStylesOptions\<close>. \<^verbatim>\<open>className\<close> of the options is the component's class name
  (the code renames it \<^verbatim>\<open>componentClassName\<close>); \<^verbatim>\<open>renderer.renderRule\<close> reads the
  style object from the store. The telemetry object is mutable and lives in the state.
\<close>

record options =
  allDisplayNames :: "string list"
  componentClassName :: "string option"
  theme :: "theme option"
  primaryDisplayName :: string
  props :: component_props
  rtl :: bool
  disableAnimations :: bool
  renderRule :: "styleval \<Rightarrow> rendererParam \<Rightarrow> obj list \<Rightarrow> string"
  performanceFlags :: performance_flags

section \<open>State\<close>

record telemetry_perf =
  stylesRootCacheHits :: nat
  stylesSlotsCacheHits :: nat
  msResolveStylesTotal :: int
  msRenderStylesTotal :: int

record telemetry =
  enabled :: bool
  performance :: "string \<rightharpoonup> telemetry_perf"

text \<open>
  The module-level weak maps \<^verbatim>\<open>stylesCache\<close> and \<^verbatim>\<open>classesCache\<close> (keyed by theme
  identity), the three objects of the call in progress (for \<^verbatim>\<open>resolvedStyles\<close> and
  \<^verbatim>\<open>classes\<close>: their data properties; the accessor properties are the functions
  below), the store of style objects, the telemetry object (\<open>None\<close>: \<^verbatim>\<open>undefined\<close>) and
  the number of clock readings taken. \<open>styleCalls\<close> and \<open>renderCalls\<close> are not in the
  source: they log, by slot name, every invocation of a style function and of
  \<^verbatim>\<open>renderer.renderRule\<close>, so that "invoked once" can be stated.
\<close>

record state =
  stylesCache :: "nat \<rightharpoonup> (string \<rightharpoonup> styleval)"
  classesCache :: "nat \<rightharpoonup> (string \<rightharpoonup> string option)"
  resolvedStyles :: "string \<rightharpoonup> styleval"
  resolvedStylesDebug :: "string \<rightharpoonup> jsval"
  classes :: "string \<rightharpoonup> string option"
  store :: "obj list"
  telemetry :: "telemetry option"
  ticks :: nat
  styleCalls :: "string list"
  renderCalls :: "string list"

datatype error = ConfigurationError | TypeError

text \<open>
  An accessor returns a value and the new state, throws, or does not return:
  \<open>None\<close> is a read that has not come back within the given recursion depth.
\<close>

type_synonym 'a outcome = "(error + 'a \<times> state) option"

definition returns :: "'a \<Rightarrow> state \<Rightarrow> 'a outcome" where
  "returns x st = Some (Inr (x, st))"

definition throws :: "error \<Rightarrow> 'a outcome" where
  "throws e = Some (Inl e)"

definition and_then :: "'a outcome \<Rightarrow> ('a \<Rightarrow> state \<Rightarrow> 'b outcome) \<Rightarrow> 'b outcome" where
  "and_then r f =
     (case r of
        None \<Rightarrow> None
      | Some (Inl e) \<Rightarrow> Some (Inl e)
      | Some (Inr (x, st)) \<Rightarrow> f x st)"

section \<open>Library functions\<close>

text \<open>\<^verbatim>\<open>Array.prototype.join\<close> on strings.\<close>

fun join :: "string \<Rightarrow> string list \<Rightarrow> string" where
  "join sep [] = []"
| "join sep [x] = x"
| "join sep (x # y # ys) = x @ sep @ join sep (y # ys)"

text \<open>
  \<^verbatim>\<open>cx\<close> of the classnames package on strings and \<^verbatim>\<open>undefined\<close>: falsy arguments are
  skipped, the others joined by one space.
\<close>

definition cx :: "string option list \<Rightarrow> string" where
  "cx args = join '' '' (map the (filter truthy_class args))"

text \<open>
  A property read on an ordinary object finds the object's own property and otherwise
  what the object inherits from \<^verbatim>\<open>Object.prototype\<close> under the name: a function or,
  for \<^verbatim>\<open>__proto__\<close>, the prototype itself. What is inherited is truthy and has no
  enumerable property of its own. These are the inherited names.
\<close>

definition objectPrototype :: "string list" where
  "objectPrototype =
     [''constructor'', ''__defineGetter__'', ''__defineSetter__'', ''hasOwnProperty'',
      ''__lookupGetter__'', ''__lookupSetter__'', ''isPrototypeOf'', ''propertyIsEnumerable'',
      ''toString'', ''valueOf'', ''__proto__'', ''toLocaleString'']"

text \<open>How a template literal renders a boolean.\<close>

definition bool_string :: "bool \<Rightarrow> string" where
  "bool_string b = (if b then ''true'' else ''false'')"

text \<open>
  \<^verbatim>\<open>value['_debug']\<close> and \<^verbatim>\<open>delete value['_debug']\<close> on what the style getter returned.
  Both throw on \<^verbatim>\<open>undefined\<close> and \<^verbatim>\<open>null\<close>; another primitive has no such property.
\<close>

definition store_get :: "obj list \<Rightarrow> nat \<Rightarrow> obj" where
  "store_get sto a = (if a < length sto then sto ! a else Map.empty)"

fun get_property :: "obj list \<Rightarrow> styleval \<Rightarrow> string \<Rightarrow> error + jsval" where
  "get_property sto (SRef a) k =
     Inr (case store_get sto a k of None \<Rightarrow> JPrim PUndefined | Some v \<Rightarrow> v)"
| "get_property sto (SPrim PUndefined) k = Inl TypeError"
| "get_property sto (SPrim PNull) k = Inl TypeError"
| "get_property sto (SPrim p) k = Inr (JPrim PUndefined)"

fun delete_property :: "obj list \<Rightarrow> styleval \<Rightarrow> string \<Rightarrow> error + obj list" where
  "delete_property sto (SRef a) k =
     Inr (if a < length sto then sto[a := (sto ! a)(k := None)] else sto)"
| "delete_property sto (SPrim PUndefined) k = Inl TypeError"
| "delete_property sto (SPrim PNull) k = Inl TypeError"
| "delete_property sto (SPrim p) k = Inr sto"

section \<open>Cache eligibility (source lines 60 to 91)\<close>

definition noInlineStylesOverrides :: "component_props \<Rightarrow> bool" where
  "noInlineStylesOverrides p = (\<not> (truthy (design p) \<or> truthy (styles p)))"

text \<open>
  The callback of \<^verbatim>\<open>Object.keys(variables).every(...)\<close>: the value is \<^verbatim>\<open>null\<close>,
  has type \<^verbatim>\<open>'undefined'\<close> or has type \<^verbatim>\<open>'boolean'\<close>.
\<close>

fun booleanOrAbsent :: "jsval \<Rightarrow> bool" where
  "booleanOrAbsent (JPrim PNull) = True"
| "booleanOrAbsent (JPrim PUndefined) = True"
| "booleanOrAbsent (JPrim (PBool b)) = True"
| "booleanOrAbsent v = False"

definition hasOnlyBooleanVariables :: "jsval \<Rightarrow> bool" where
  "hasOnlyBooleanVariables vars = list_all (\<lambda>kv. booleanOrAbsent (snd kv)) (entries vars)"

definition noVariableOverrides :: "performance_flags \<Rightarrow> component_props \<Rightarrow> bool" where
  "noVariableOverrides flags p =
     (let initial = (enableBooleanVariablesCaching flags \<or> \<not> truthy (variables p)) in
      if enableBooleanVariablesCaching flags then
        (if isPlainObject (variables p) then
           (if \<not> hasOnlyBooleanVariables (variables p) then False else initial)
         else if \<not> isNil (variables p) then False
         else initial)
      else initial)"

definition cacheEnabled :: "performance_flags \<Rightarrow> component_props \<Rightarrow> bool" where
  "cacheEnabled flags p =
     (enableStylesCaching flags \<and> noInlineStylesOverrides p \<and> noVariableOverrides flags p)"

text \<open>The check of lines 66 to 72; it throws outside production builds.\<close>

definition checkPerformanceFlags :: "host \<Rightarrow> performance_flags \<Rightarrow> error option" where
  "checkPerformanceFlags h flags =
     (if \<not> production h then
        (if \<not> enableStylesCaching flags \<and> enableBooleanVariablesCaching flags
         then Some ConfigurationError else None)
      else None)"

section \<open>The accessors of a call\<close>

text \<open>
  What the accessors close over: the options and the constants \<^verbatim>\<open>resolveStyles\<close>
  computes before it defines them.
\<close>

record closure =
  cl_options :: options
  cl_cacheEnabled :: bool
  cl_mergedStyles :: styleset
  cl_styleParam :: styleParam
  cl_rendererParam :: rendererParam
  cl_componentCacheKey :: string

text \<open>\<^verbatim>\<open>cacheEnabled && theme\<close>, with the theme's identity when it holds.\<close>

definition cachingTheme :: "closure \<Rightarrow> nat option" where
  "cachingTheme cl =
     (if cl_cacheEnabled cl then map_option theme_id (theme (cl_options cl)) else None)"

text \<open>\<^verbatim>\<open>cache.get(theme) || {}\<close>, also what \<^verbatim>\<open>{...cache.get(theme)}\<close> spreads.\<close>

definition themeCache :: "(nat \<rightharpoonup> (string \<rightharpoonup> 'v)) \<Rightarrow> nat \<Rightarrow> (string \<rightharpoonup> 'v)" where
  "themeCache cache t = (case cache t of None \<Rightarrow> Map.empty | Some m \<Rightarrow> m)"

definition lazyEvaluationKey :: "string \<Rightarrow> string" where
  "lazyEvaluationKey slotName = slotName @ ''__return''"

definition slotCacheKey :: "closure \<Rightarrow> string \<Rightarrow> string" where
  "slotCacheKey cl slotName = cl_componentCacheKey cl @ slotName"

text \<open>A missing property reads as \<^verbatim>\<open>undefined\<close>.\<close>

definition style_at :: "(string \<rightharpoonup> styleval) \<Rightarrow> string \<Rightarrow> styleval" where
  "style_at m k = (case m k of None \<Rightarrow> SPrim PUndefined | Some v \<Rightarrow> v)"

definition class_at :: "(string \<rightharpoonup> string option) \<Rightarrow> string \<Rightarrow> string option" where
  "class_at m k = (case m k of None \<Rightarrow> None | Some v \<Rightarrow> v)"

lemma key_length_bound:
  "map_of ms k = Some f \<Longrightarrow> length k \<le> sum_list (map (\<lambda>kv. length (fst kv)) ms)"
  by (induction ms) (auto split: if_splits)

subsection \<open>Writing a property of \<^verbatim>\<open>resolvedStyles\<close> (setter: lines 162 to 172)\<close>

text \<open>
  \<^verbatim>\<open>resolvedStyles[k] = val\<close>. Every slot name is an accessor property, so the
  assignment runs the setter when \<open>k\<close> is a slot name and writes a data property
  otherwise. The setter's own assignment to \<^verbatim>\<open>resolvedStyles[lazyEvaluationKey]\<close>
  is such a write again: it ends because the style set is finite and the names grow.
\<close>

function resolvedStyles_set :: "closure \<Rightarrow> string \<Rightarrow> styleval \<Rightarrow> state \<Rightarrow> state" where
  "resolvedStyles_set cl k val st =
     (case map_of (cl_mergedStyles cl) k of
        None \<Rightarrow> st\<lparr>resolvedStyles := (resolvedStyles st)(k \<mapsto> val)\<rparr>
      | Some styleFn \<Rightarrow>
          resolvedStyles_set cl (lazyEvaluationKey k) val
            (case cachingTheme cl of
               None \<Rightarrow> st
             | Some t \<Rightarrow>
                 st\<lparr>stylesCache := (stylesCache st)
                      (t \<mapsto> (themeCache (stylesCache st) t)(slotCacheKey cl k \<mapsto> val))\<rparr>))"
  by pat_completeness auto
termination
proof (relation "measure (\<lambda>(cl, k, val, st).
    Suc (sum_list (map (\<lambda>kv. length (fst kv)) (cl_mergedStyles cl))) - length k)")
  show "wf (measure (\<lambda>(cl, k, val, st).
    Suc (sum_list (map (\<lambda>kv. length (fst kv)) (cl_mergedStyles cl))) - length k))"
    by simp
next
  fix cl :: closure and k :: string and val :: styleval and st :: state and x2 :: style_fn
  assume "map_of (cl_mergedStyles cl) k = Some x2"
  then have "length k \<le> sum_list (map (\<lambda>kv. length (fst kv)) (cl_mergedStyles cl))"
    by (rule key_length_bound)
  then show "((cl, lazyEvaluationKey k, val,
        case cachingTheme cl of
          None \<Rightarrow> st
        | Some t \<Rightarrow>
            st\<lparr>stylesCache := (stylesCache st)
                 (t \<mapsto> (themeCache (stylesCache st) t)(slotCacheKey cl k \<mapsto> val))\<rparr>),
       cl, k, val, st)
      \<in> measure (\<lambda>(cl, k, val, st).
          Suc (sum_list (map (\<lambda>kv. length (fst kv)) (cl_mergedStyles cl))) - length k)"
    by (simp add: lazyEvaluationKey_def)
qed

declare resolvedStyles_set.simps [simp del]

subsection \<open>Telemetry\<close>

text \<open>\<^verbatim>\<open>telemetry?.enabled\<close> and \<^verbatim>\<open>telemetry?.performance[primaryDisplayName]\<close>.\<close>

definition telemetryEnabled :: "state \<Rightarrow> bool" where
  "telemetryEnabled st = (case telemetry st of None \<Rightarrow> False | Some t \<Rightarrow> enabled t)"

definition telemetryPerformance :: "state \<Rightarrow> string \<Rightarrow> telemetry_perf option" where
  "telemetryPerformance st name = (case telemetry st of None \<Rightarrow> None | Some t \<Rightarrow> performance t name)"

definition updatePerformance ::
  "string \<Rightarrow> (telemetry_perf \<Rightarrow> telemetry_perf) \<Rightarrow> state \<Rightarrow> state" where
  "updatePerformance name f st =
     (case telemetry st of
        None \<Rightarrow> st
      | Some t \<Rightarrow>
          (case performance t name of
             None \<Rightarrow> st
           | Some perf \<Rightarrow> st\<lparr>telemetry := Some (t\<lparr>performance := (performance t)(name \<mapsto> f perf)\<rparr>)\<rparr>))"

text \<open>\<^verbatim>\<open>telemetry?.enabled ? performance.now() : 0\<close>\<close>

definition telemetryPartStart :: "host \<Rightarrow> state \<Rightarrow> int \<times> state" where
  "telemetryPartStart h st =
     (if telemetryEnabled st then (now h (ticks st), st\<lparr>ticks := Suc (ticks st)\<rparr>) else (0, st))"

text \<open>
  Lines 203 to 205 and 277 to 279: under \<^verbatim>\<open>telemetry?.enabled\<close> and an existing record
  for the primary display name, the elapsed time is added to a total. For a display name
  that is an inherited name the read \<^verbatim>\<open>telemetry.performance[primaryDisplayName]\<close>
  finds the inherited member: the clock is read, and the total goes to that member, which
  is no record of the telemetry object.
\<close>

definition addElapsed ::
  "host \<Rightarrow> string \<Rightarrow> int \<Rightarrow> (int \<Rightarrow> telemetry_perf \<Rightarrow> telemetry_perf) \<Rightarrow> state \<Rightarrow> state" where
  "addElapsed h name start add st =
     (if telemetryEnabled st
         \<and> (telemetryPerformance st name \<noteq> None \<or> name \<in> set objectPrototype)
      then updatePerformance name (add (now h (ticks st) - start)) (st\<lparr>ticks := Suc (ticks st)\<rparr>)
      else st)"

text \<open>\<^verbatim>\<open>process.env.NODE_ENV !== 'production' && isDebugEnabled\<close>\<close>

definition debugOutput :: "host \<Rightarrow> bool" where
  "debugOutput h = (\<not> production h \<and> isDebugEnabled h)"

subsection \<open>Reading a property of \<^verbatim>\<open>resolvedStyles\<close> (getter: lines 173 to 208)\<close>

text \<open>
  \<^verbatim>\<open>resolvedStyles[k]\<close>: the data property when \<open>k\<close> is not a slot name, the getter
  otherwise. The getter reads \<^verbatim>\<open>resolvedStyles[lazyEvaluationKey]\<close> and, with debug
  output, \<^verbatim>\<open>resolvedStyles[slotName]\<close>, that is itself; the first argument bounds the
  depth of getters running inside getters.
\<close>

definition read_property ::
  "(string \<Rightarrow> state \<Rightarrow> 'v outcome) \<Rightarrow> styleset \<Rightarrow> (state \<Rightarrow> string \<Rightarrow> 'v) \<Rightarrow> string \<Rightarrow> state
     \<Rightarrow> 'v outcome" where
  "read_property getter slots dataProperty k st =
     (case map_of slots k of
        None \<Rightarrow> returns (dataProperty st k) st
      | Some styleFn \<Rightarrow> getter k st)"

definition stylesData :: "state \<Rightarrow> string \<Rightarrow> styleval" where
  "stylesData st k = style_at (resolvedStyles st) k"

text \<open>Lines 175 to 180: the cached style, when caching is on and the entry is truthy.\<close>

definition cachedStyle :: "closure \<Rightarrow> string \<Rightarrow> state \<Rightarrow> styleval option" where
  "cachedStyle cl slotName st =
     (case cachingTheme cl of
        None \<Rightarrow> None
      | Some t \<Rightarrow>
          (let entry = style_at (themeCache (stylesCache st) t) (slotCacheKey cl slotName)
           in if truthy_style entry then Some entry else None))"

fun resolvedStyles_get ::
  "nat \<Rightarrow> host \<Rightarrow> closure \<Rightarrow> string \<Rightarrow> state \<Rightarrow> styleval outcome" where
  "resolvedStyles_get 0 h cl slotName st = None"
| "resolvedStyles_get (Suc n) h cl slotName st =
     (case map_of (cl_mergedStyles cl) slotName of
        None \<Rightarrow> returns (stylesData st slotName) st
      | Some styleFn \<Rightarrow>
         (case cachedStyle cl slotName st of
            Some entry \<Rightarrow> returns entry st
          | None \<Rightarrow>
             and_then (read_property (resolvedStyles_get n h cl) (cl_mergedStyles cl) stylesData
                         (lazyEvaluationKey slotName) st)
               (\<lambda>memo st1.
                 if truthy_style memo
                 then read_property (resolvedStyles_get n h cl) (cl_mergedStyles cl) stylesData
                        (lazyEvaluationKey slotName) st1
                 else
                   (let (telemetryStart, st2) = telemetryPartStart h st1;
                        (val, sto) = styleFn (cl_styleParam cl) (store st2);
                        st3 = resolvedStyles_set cl (lazyEvaluationKey slotName) val
                                (st2\<lparr>store := sto, styleCalls := styleCalls st2 @ [slotName]\<rparr>)
                    in
                    and_then
                      (case cachingTheme cl of
                         None \<Rightarrow> returns () st3
                       | Some t \<Rightarrow>
                           (let spread = themeCache (stylesCache st3) t in
                            and_then (read_property (resolvedStyles_get n h cl) (cl_mergedStyles cl)
                                        stylesData (lazyEvaluationKey slotName) st3)
                              (\<lambda>stored st4.
                                returns ()
                                  (st4\<lparr>stylesCache := (stylesCache st4)
                                         (t \<mapsto> spread(slotCacheKey cl slotName \<mapsto> stored))\<rparr>))))
                      (\<lambda>u st5.
                        and_then
                          (if debugOutput h
                           then
                             and_then (read_property (resolvedStyles_get n h cl) (cl_mergedStyles cl)
                                         stylesData slotName st5)
                               (\<lambda>obj1 st6.
                                 case get_property (store st6) obj1 ''_debug'' of
                                   Inl e \<Rightarrow> throws e
                                 | Inr payload \<Rightarrow>
                                     and_then
                                       (read_property (resolvedStyles_get n h cl) (cl_mergedStyles cl)
                                          stylesData slotName
                                          (st6\<lparr>resolvedStylesDebug :=
                                                 (resolvedStylesDebug st6)(slotName \<mapsto> payload)\<rparr>))
                                       (\<lambda>obj2 st7.
                                         case delete_property (store st7) obj2 ''_debug'' of
                                           Inl e \<Rightarrow> throws e
                                         | Inr sto' \<Rightarrow> returns () (st7\<lparr>store := sto'\<rparr>)))
                           else returns () st5)
                          (\<lambda>u st8.
                            read_property (resolvedStyles_get n h cl) (cl_mergedStyles cl) stylesData
                              (lazyEvaluationKey slotName)
                              (addElapsed h (primaryDisplayName (cl_options cl)) telemetryStart
                                 (\<lambda>ms perf. perf\<lparr>msResolveStylesTotal := msResolveStylesTotal perf + ms\<rparr>)
                                 st8)))))))"

declare resolvedStyles_get.simps(2) [simp del]

subsection \<open>Writing a property of \<^verbatim>\<open>classes\<close> (setter: lines 214 to 223)\<close>

function classes_set :: "closure \<Rightarrow> string \<Rightarrow> string option \<Rightarrow> state \<Rightarrow> state" where
  "classes_set cl k val st =
     (case map_of (cl_mergedStyles cl) k of
        None \<Rightarrow> st\<lparr>classes := (classes st)(k \<mapsto> val)\<rparr>
      | Some styleFn \<Rightarrow>
          classes_set cl (lazyEvaluationKey k) val
            (case cachingTheme cl of
               None \<Rightarrow> st
             | Some t \<Rightarrow>
                 st\<lparr>classesCache := (classesCache st)
                      (t \<mapsto> (themeCache (classesCache st) t)(slotCacheKey cl k \<mapsto> val))\<rparr>))"
  by pat_completeness auto
termination
proof (relation "measure (\<lambda>(cl, k, val, st).
    Suc (sum_list (map (\<lambda>kv. length (fst kv)) (cl_mergedStyles cl))) - length k)")
  show "wf (measure (\<lambda>(cl, k, val, st).
    Suc (sum_list (map (\<lambda>kv. length (fst kv)) (cl_mergedStyles cl))) - length k))"
    by simp
next
  fix cl :: closure and k :: string and val :: "string option" and st :: state
    and x2 :: style_fn
  assume "map_of (cl_mergedStyles cl) k = Some x2"
  then have "length k \<le> sum_list (map (\<lambda>kv. length (fst kv)) (cl_mergedStyles cl))"
    by (rule key_length_bound)
  then show "((cl, lazyEvaluationKey k, val,
        case cachingTheme cl of
          None \<Rightarrow> st
        | Some t \<Rightarrow>
            st\<lparr>classesCache := (classesCache st)
                 (t \<mapsto> (themeCache (classesCache st) t)(slotCacheKey cl k \<mapsto> val))\<rparr>),
       cl, k, val, st)
      \<in> measure (\<lambda>(cl, k, val, st).
          Suc (sum_list (map (\<lambda>kv. length (fst kv)) (cl_mergedStyles cl))) - length k)"
    by (simp add: lazyEvaluationKey_def)
qed

declare classes_set.simps [simp del]

subsection \<open>Reading a property of \<^verbatim>\<open>classes\<close> (getter: lines 224 to 282)\<close>

definition classesData :: "state \<Rightarrow> string \<Rightarrow> string option" where
  "classesData st k = class_at (classes st) k"

text \<open>
  Line 232: the cached class, when caching is on and the entry is truthy or the empty
  string.
\<close>

definition cachedClass :: "closure \<Rightarrow> string \<Rightarrow> state \<Rightarrow> string option option" where
  "cachedClass cl slotName st =
     (case cachingTheme cl of
        None \<Rightarrow> None
      | Some t \<Rightarrow>
          (let entry = class_at (themeCache (classesCache st) t) (slotCacheKey cl slotName)
           in if truthy_class entry \<or> entry = Some [] then Some entry else None))"

text \<open>
  Lines 233 to 239: the cache-hit counters. For an inherited name the counter that moves
  is the inherited member's, and the telemetry object's records stay as they are.
\<close>

definition countCacheHit :: "closure \<Rightarrow> string \<Rightarrow> state \<Rightarrow> state" where
  "countCacheHit cl slotName st =
     (if telemetryPerformance st (primaryDisplayName (cl_options cl)) \<noteq> None
      then
        (if slotName = ''root''
         then updatePerformance (primaryDisplayName (cl_options cl))
                (\<lambda>perf. perf\<lparr>stylesRootCacheHits := stylesRootCacheHits perf + 1\<rparr>) st
         else updatePerformance (primaryDisplayName (cl_options cl))
                (\<lambda>perf. perf\<lparr>stylesSlotsCacheHits := stylesSlotsCacheHits perf + 1\<rparr>) st)
      else st)"

text \<open>
  \<^verbatim>\<open>slotName === 'root' ? cx(componentClassName, value, className) : value\<close>
\<close>

definition slotClass :: "closure \<Rightarrow> string \<Rightarrow> string option \<Rightarrow> string option" where
  "slotClass cl slotName val =
     (if slotName = ''root''
      then Some (cx [componentClassName (cl_options cl), val, className (props (cl_options cl))])
      else val)"

fun classes_get ::
  "nat \<Rightarrow> host \<Rightarrow> closure \<Rightarrow> string \<Rightarrow> state \<Rightarrow> string option outcome" where
  "classes_get 0 h cl slotName st = None"
| "classes_get (Suc n) h cl slotName st =
     (case map_of (cl_mergedStyles cl) slotName of
        None \<Rightarrow> returns (classesData st slotName) st
      | Some styleFn \<Rightarrow>
         (case cachedClass cl slotName st of
            Some entry \<Rightarrow> returns (slotClass cl slotName entry) (countCacheHit cl slotName st)
          | None \<Rightarrow>
             and_then (read_property (classes_get n h cl) (cl_mergedStyles cl) classesData
                         (lazyEvaluationKey slotName) st)
               (\<lambda>memo st1.
                 if truthy_class memo
                 then and_then (read_property (classes_get n h cl) (cl_mergedStyles cl) classesData
                                  (lazyEvaluationKey slotName) st1)
                        (\<lambda>memo' st2. returns (slotClass cl slotName memo') st2)
                 else
                   and_then (resolvedStyles_get n h cl slotName st1)
                     (\<lambda>styleObj st2.
                       (let (telemetryStart, st3) = telemetryPartStart h st2 in
                        and_then
                          (if truthy_style styleObj
                           then
                             (let rendered = renderRule (cl_options cl) styleObj
                                               (cl_rendererParam cl) (store st3);
                                  st4 = classes_set cl (lazyEvaluationKey slotName) (Some rendered)
                                          (st3\<lparr>renderCalls := renderCalls st3 @ [slotName]\<rparr>)
                              in
                              case cachingTheme cl of
                                None \<Rightarrow> returns () st4
                              | Some t \<Rightarrow>
                                  (let spread = themeCache (classesCache st4) t in
                                   and_then (read_property (classes_get n h cl) (cl_mergedStyles cl)
                                               classesData (lazyEvaluationKey slotName) st4)
                                     (\<lambda>stored st5.
                                       returns ()
                                         (st5\<lparr>classesCache := (classesCache st5)
                                                (t \<mapsto> spread(slotCacheKey cl slotName \<mapsto> stored))\<rparr>))))
                           else returns () st3)
                          (\<lambda>u st6.
                            and_then (read_property (classes_get n h cl) (cl_mergedStyles cl)
                                        classesData (lazyEvaluationKey slotName) st6)
                              (\<lambda>memo' st7.
                                returns (slotClass cl slotName memo')
                                  (addElapsed h (primaryDisplayName (cl_options cl)) telemetryStart
                                     (\<lambda>ms perf. perf\<lparr>msRenderStylesTotal :=
                                                        msRenderStylesTotal perf + ms\<rparr>)
                                     st7))))))))"

declare classes_get.simps(2) [simp del]

section \<open>\<^verbatim>\<open>resolveStyles\<close>\<close>

text \<open>\<^verbatim>\<open>{ root: () => ({}) }\<close>: the style function allocates an empty object.\<close>

definition emptyStyle :: style_fn where
  "emptyStyle param sto = (SRef (length sto), sto @ [Map.empty])"

definition defaultStyles :: styleset where
  "defaultStyles = [(''root'', emptyStyle)]"

text \<open>
  \<^verbatim>\<open>theme.componentStyles[displayName]\<close> is such a read: it finds the style set the
  theme declares under the name and otherwise the inherited member. \<open>None\<close> is
  \<^verbatim>\<open>undefined\<close>.
\<close>

definition componentStylesOf :: "theme \<Rightarrow> string \<Rightarrow> merge_input option" where
  "componentStylesOf t name =
     (case componentStyles t name of
        Some declared \<Rightarrow> Some (Prepared declared)
      | None \<Rightarrow> (if name \<in> set objectPrototype then Some (Inherited name) else None))"

text \<open>
  Lines 96 to 106. Reading \<^verbatim>\<open>theme.componentStyles\<close> of an undefined theme throws; with
  no display name the theme is not read. \<^verbatim>\<open>filter(Boolean)\<close> drops the names for which
  the read gave \<^verbatim>\<open>undefined\<close>.
\<close>

definition themeStyles :: "host \<Rightarrow> options \<Rightarrow> error + merge_input" where
  "themeStyles h opts =
     (if length (allDisplayNames opts) = 1 then
        (case theme opts of
           None \<Rightarrow> Inl TypeError
         | Some t \<Rightarrow>
             (case componentStylesOf t (allDisplayNames opts ! 0) of
                None \<Rightarrow> Inr (Prepared defaultStyles)
              | Some found \<Rightarrow> Inr found))
      else
        (case theme opts of
           None \<Rightarrow>
             (if allDisplayNames opts = [] then Inr (Prepared defaultStyles) else Inl TypeError)
         | Some t \<Rightarrow>
             (let styles = List.map_filter (componentStylesOf t) (allDisplayNames opts) in
              if length styles > 0
              then Inr (Prepared (mergeComponentStyles h styles))
              else Inr (Prepared defaultStyles))))"

text \<open>
  The slots \<^verbatim>\<open>Object.keys(mergedStyles)\<close> lists, with their style functions: those of
  a style set, none of an inherited member.
\<close>

fun ownSlots :: "merge_input \<Rightarrow> styleset" where
  "ownSlots (Prepared slots) = slots"
| "ownSlots other = []"

text \<open>\<^verbatim>\<open>value && withDebugId({ root: value }, label)\<close>\<close>

definition labelled :: "jsval \<Rightarrow> string \<Rightarrow> merge_input" where
  "labelled v label = (if truthy v then WithDebugId v label else Passed v)"

text \<open>Lines 108 to 114: the inline overrides are merged on top.\<close>

definition mergedStyles :: "host \<Rightarrow> options \<Rightarrow> error + styleset" where
  "mergedStyles h opts =
     (case themeStyles h opts of
        Inl e \<Rightarrow> Inl e
      | Inr fromTheme \<Rightarrow>
          (if \<not> noInlineStylesOverrides (props opts)
           then Inr (mergeComponentStyles h
                  [fromTheme,
                   labelled (design (props opts)) ''props.design'',
                   labelled (styles (props opts)) ''props.styles''])
           else Inr (ownSlots fromTheme)))"

definition makeStyleParam :: "options \<Rightarrow> jsval \<Rightarrow> styleParam" where
  "makeStyleParam opts resolvedVariables =
     \<lparr>sp_props = props opts, sp_variables = resolvedVariables,
      sp_theme = map_option theme_id (theme opts), sp_rtl = rtl opts,
      sp_disableAnimations = disableAnimations opts\<rparr>"

definition makeRendererParam :: "options \<Rightarrow> rendererParam" where
  "makeRendererParam opts =
     \<lparr>direction = (if rtl opts then ''rtl'' else ''ltr''),
      rp_disableAnimations = disableAnimations opts,
      displayName = join '':'' (allDisplayNames opts),
      sanitizeCss = enableSanitizeCssPlugin (performanceFlags opts)\<rparr>"

text \<open>Lines 136 to 143: a theme seen for the first time gets two empty stores.\<close>

definition initCaches :: "options \<Rightarrow> state \<Rightarrow> state" where
  "initCaches opts st =
     (case theme opts of
        None \<Rightarrow> st
      | Some t \<Rightarrow>
          (if cacheEnabled (performanceFlags opts) (props opts)
           then st\<lparr>stylesCache :=
                      (if stylesCache st (theme_id t) = None
                       then (stylesCache st)(theme_id t \<mapsto> Map.empty) else stylesCache st),
                    classesCache :=
                      (if classesCache st (theme_id t) = None
                       then (classesCache st)(theme_id t \<mapsto> Map.empty) else classesCache st)\<rparr>
           else st))"

text \<open>Lines 145 to 152.\<close>

definition propsCacheKey :: "host \<Rightarrow> options \<Rightarrow> string" where
  "propsCacheKey h opts =
     (if cacheEnabled (performanceFlags opts) (props opts)
      then stringify h (JObject True (stylesProps (props opts))) else [])"

definition variablesCacheKey :: "host \<Rightarrow> options \<Rightarrow> string" where
  "variablesCacheKey h opts =
     (if cacheEnabled (performanceFlags opts) (props opts)
         \<and> enableBooleanVariablesCaching (performanceFlags opts)
      then stringify h (variables (props opts)) else [])"

definition componentCacheKey :: "host \<Rightarrow> options \<Rightarrow> string" where
  "componentCacheKey h opts =
     (if cacheEnabled (performanceFlags opts) (props opts)
      then join '':'' (allDisplayNames opts) @ '':'' @ propsCacheKey h opts @ '':''
           @ variablesCacheKey h opts @ '':''
           @ bool_string (rtl opts) @ bool_string (disableAnimations opts)
      else [])"

text \<open>
  The call: the configuration check, the merge, the caches of the theme, and the three
  fresh objects. The result stands for \<^verbatim>\<open>{ resolvedStyles, resolvedStylesDebug, classes }\<close>:
  the closure the accessors share and the state holding the objects' data.
\<close>

definition resolveStyles :: "host \<Rightarrow> options \<Rightarrow> jsval \<Rightarrow> state \<Rightarrow> error + closure \<times> state" where
  "resolveStyles h opts resolvedVariables st =
     (case checkPerformanceFlags h (performanceFlags opts) of
        Some e \<Rightarrow> Inl e
      | None \<Rightarrow>
          (case mergedStyles h opts of
             Inl e \<Rightarrow> Inl e
           | Inr merged \<Rightarrow>
               Inr (\<lparr>cl_options = opts,
                     cl_cacheEnabled = cacheEnabled (performanceFlags opts) (props opts),
                     cl_mergedStyles = merged,
                     cl_styleParam = makeStyleParam opts resolvedVariables,
                     cl_rendererParam = makeRendererParam opts,
                     cl_componentCacheKey = componentCacheKey h opts\<rparr>,
                    (initCaches opts st)
                      \<lparr>resolvedStyles := Map.empty, resolvedStylesDebug := Map.empty,
                       classes := Map.empty\<rparr>)))"

section \<open>The specification's wording\<close>

text \<open>
  The eligibility rule as the specification words it: variables are absent, or the
  boolean-variable optimization is on and every supplied variable value is boolean,
  absent or null.
\<close>

definition spec_noVariableOverrides :: "performance_flags \<Rightarrow> component_props \<Rightarrow> bool" where
  "spec_noVariableOverrides flags p =
     (isNil (variables p)
      \<or> (enableBooleanVariablesCaching flags
          \<and> list_all (\<lambda>kv. booleanOrAbsent (snd kv)) (entries (variables p))))"

definition spec_cacheEnabled :: "performance_flags \<Rightarrow> component_props \<Rightarrow> bool" where
  "spec_cacheEnabled flags p =
     (enableStylesCaching flags \<and> \<not> truthy (styles p) \<and> \<not> truthy (design p)
      \<and> spec_noVariableOverrides flags p)"

text \<open>
  The cache key as the specification words it: the joined display names, the serialized
  props without the four special ones, the serialized variables when the
  boolean-variable optimization is on, the direction flag and the animation flag; the
  slot name is appended. Without caching the base is empty.
\<close>

definition spec_componentCacheKey :: "host \<Rightarrow> options \<Rightarrow> string" where
  "spec_componentCacheKey h opts =
     (if cacheEnabled (performanceFlags opts) (props opts)
      then join '':'' (allDisplayNames opts)
           @ '':'' @ stringify h (JObject True (stylesProps (props opts)))
           @ '':'' @ (if enableBooleanVariablesCaching (performanceFlags opts)
                     then stringify h (variables (props opts)) else [])
           @ '':'' @ bool_string (rtl opts) @ bool_string (disableAnimations opts)
      else [])"

definition spec_slotCacheKey :: "host \<Rightarrow> options \<Rightarrow> string \<Rightarrow> string" where
  "spec_slotCacheKey h opts slotName = spec_componentCacheKey h opts @ slotName"

section \<open>Concrete inputs\<close>

text \<open>Flags, props and a host used where a statement is evaluated on an input.\<close>

definition flagsBoth :: performance_flags where
  "flagsBoth = \<lparr>enableStylesCaching = True, enableBooleanVariablesCaching = True,
                enableSanitizeCssPlugin = False\<rparr>"

definition flagsMisconfigured :: performance_flags where
  "flagsMisconfigured = \<lparr>enableStylesCaching = False, enableBooleanVariablesCaching = True,
                         enableSanitizeCssPlugin = False\<rparr>"

definition propsWith :: "jsval \<Rightarrow> component_props" where
  "propsWith vars = \<lparr>className = Some ''custom'', design = JPrim PUndefined,
                     styles = JPrim PUndefined, variables = vars, stylesProps = []\<rparr>"

text \<open>An instance of a class with one boolean field, and a mapping with a string value.\<close>

definition classInstanceVariables :: jsval where
  "classInstanceVariables = JObject False [(''isPrimary'', JPrim (PBool True))]"

definition stringVariables :: jsval where
  "stringVariables = JObject True [(''color'', JPrim (PStr ''red''))]"

text \<open>
  A host for the examples: \<open>sampleStringify\<close> stands in for \<^verbatim>\<open>JSON.stringify\<close> and
  \<open>firstPrepared\<close> for \<^verbatim>\<open>mergeComponentStyles\<close>; the clock counts its readings.
\<close>

fun sampleStringify :: "jsval \<Rightarrow> string" where
  "sampleStringify (JPrim PUndefined) = ''undefined''"
| "sampleStringify (JPrim PNull) = ''null''"
| "sampleStringify (JObject plain []) = ''{}''"
| "sampleStringify v = ''{...}''"

fun firstPrepared :: "merge_input list \<Rightarrow> styleset" where
  "firstPrepared (Prepared s # rest) = s"
| "firstPrepared inputs = []"

definition sampleHost :: "bool \<Rightarrow> bool \<Rightarrow> host" where
  "sampleHost isProduction debug =
     \<lparr>production = isProduction, isDebugEnabled = debug, stringify = sampleStringify, now = int,
      mergeComponentStyles = firstPrepared\<rparr>"

text \<open>
  A theme that styles \<^verbatim>\<open>Button\<close>: the root style is a fresh object with a colour and a
  debug payload, the icon style is \<^verbatim>\<open>undefined\<close>. A second theme declares nothing.
\<close>

definition redStyle :: style_fn where
  "redStyle param sto =
     (SRef (length sto),
      sto @ [[''color'' \<mapsto> JPrim (PStr ''red''),
              ''_debug'' \<mapsto> JObject False [(''0'', JObject True [(''styles'', JObject True [])])]]])"

definition undefinedStyle :: style_fn where
  "undefinedStyle param sto = (SPrim PUndefined, sto)"

definition buttonTheme :: theme where
  "buttonTheme =
     \<lparr>theme_id = 1,
      componentStyles = [''Button'' \<mapsto> [(''root'', redStyle), (''icon'', undefinedStyle)]]\<rparr>"

definition bareTheme :: theme where
  "bareTheme = \<lparr>theme_id = 2, componentStyles = Map.empty\<rparr>"

text \<open>A renderer that gives the empty class to an object without a colour.\<close>

fun sampleRenderRule :: "styleval \<Rightarrow> rendererParam \<Rightarrow> obj list \<Rightarrow> string" where
  "sampleRenderRule (SRef a) param sto =
     (if store_get sto a ''color'' = None then [] else ''gen-123'')"
| "sampleRenderRule (SPrim p) param sto = []"

definition buttonOptions :: "theme \<Rightarrow> performance_flags \<Rightarrow> options" where
  "buttonOptions th flags =
     \<lparr>allDisplayNames = [''Button''], componentClassName = Some ''ui-button'',
      theme = Some th, primaryDisplayName = ''Button'',
      props = propsWith (JPrim PUndefined), rtl = False, disableAnimations = False,
      renderRule = sampleRenderRule, performanceFlags = flags\<rparr>"

definition flagsNone :: performance_flags where
  "flagsNone = \<lparr>enableStylesCaching = False, enableBooleanVariablesCaching = False,
               enableSanitizeCssPlugin = False\<rparr>"

definition flagsCaching :: performance_flags where
  "flagsCaching = \<lparr>enableStylesCaching = True, enableBooleanVariablesCaching = False,
                  enableSanitizeCssPlugin = False\<rparr>"

definition freshState :: "telemetry option \<Rightarrow> state" where
  "freshState tel =
     \<lparr>stylesCache = Map.empty, classesCache = Map.empty, resolvedStyles = Map.empty,
      resolvedStylesDebug = Map.empty, classes = Map.empty, store = [],
      telemetry = tel, ticks = 0, styleCalls = [], renderCalls = []\<rparr>"

text \<open>
  The closures \<^verbatim>\<open>resolveStyles\<close> builds for the button: with caching, without, and
  against the theme that declares nothing.
\<close>

definition cachingClosure :: closure where
  "cachingClosure =
     \<lparr>cl_options = buttonOptions buttonTheme flagsCaching, cl_cacheEnabled = True,
      cl_mergedStyles = [(''root'', redStyle), (''icon'', undefinedStyle)],
      cl_styleParam = makeStyleParam (buttonOptions buttonTheme flagsCaching) (JPrim PUndefined),
      cl_rendererParam = makeRendererParam (buttonOptions buttonTheme flagsCaching),
      cl_componentCacheKey = ''Button:{}::falsefalse''\<rparr>"

definition plainClosure :: closure where
  "plainClosure =
     \<lparr>cl_options = buttonOptions buttonTheme flagsNone, cl_cacheEnabled = False,
      cl_mergedStyles = [(''root'', redStyle), (''icon'', undefinedStyle)],
      cl_styleParam = makeStyleParam (buttonOptions buttonTheme flagsNone) (JPrim PUndefined),
      cl_rendererParam = makeRendererParam (buttonOptions buttonTheme flagsNone),
      cl_componentCacheKey = []\<rparr>"

definition bareClosure :: closure where
  "bareClosure =
     \<lparr>cl_options = buttonOptions bareTheme flagsNone, cl_cacheEnabled = False,
      cl_mergedStyles = defaultStyles,
      cl_styleParam = makeStyleParam (buttonOptions bareTheme flagsNone) (JPrim PUndefined),
      cl_rendererParam = makeRendererParam (buttonOptions bareTheme flagsNone),
      cl_componentCacheKey = []\<rparr>"

text \<open>The state a call leaves for its accessors when the theme's stores are new.\<close>

definition cachingState :: "telemetry option \<Rightarrow> state" where
  "cachingState tel =
     (freshState tel)\<lparr>stylesCache := [1 \<mapsto> Map.empty], classesCache := [1 \<mapsto> Map.empty]\<rparr>"

text \<open>
  A telemetry object that is switched off but still holds a record for the button, and
  two reads of the class of a slot, one after the other.
\<close>

definition disabledTelemetry :: "telemetry option" where
  "disabledTelemetry =
     Some \<lparr>enabled = False,
           performance = [''Button'' \<mapsto>
             \<lparr>stylesRootCacheHits = 0, stylesSlotsCacheHits = 0,
              msResolveStylesTotal = 0, msRenderStylesTotal = 0\<rparr>]\<rparr>"

definition readClassTwice :: "host \<Rightarrow> closure \<Rightarrow> string \<Rightarrow> state \<Rightarrow> string option outcome" where
  "readClassTwice h cl slotName st =
     and_then (classes_get (Suc (Suc 0)) h cl slotName st)
       (\<lambda>first st'. classes_get (Suc (Suc 0)) h cl slotName st')"

text \<open>The same from the call on: \<^verbatim>\<open>resolveStyles\<close>, then the two reads.\<close>

definition resolveAndReadClassTwice ::
  "host \<Rightarrow> options \<Rightarrow> jsval \<Rightarrow> string \<Rightarrow> state \<Rightarrow> string option outcome" where
  "resolveAndReadClassTwice h opts resolvedVariables slotName st =
     (case resolveStyles h opts resolvedVariables st of
        Inl e \<Rightarrow> throws e
      | Inr (cl, st') \<Rightarrow> readClassTwice h cl slotName st')"

text \<open>
  A call followed by one read of the class of a slot, and a button whose caller passes a
  class name with a doubled and a trailing space.
\<close>

definition resolveAndReadClass ::
  "host \<Rightarrow> options \<Rightarrow> jsval \<Rightarrow> string \<Rightarrow> state \<Rightarrow> string option outcome" where
  "resolveAndReadClass h opts resolvedVariables slotName st =
     (case resolveStyles h opts resolvedVariables st of
        Inl e \<Rightarrow> throws e
      | Inr (cl, st') \<Rightarrow> classes_get (Suc (Suc 0)) h cl slotName st')"

definition spacedOptions :: options where
  "spacedOptions =
     (buttonOptions buttonTheme flagsNone)
       \<lparr>props := (propsWith (JPrim PUndefined))\<lparr>className := Some ''x  y ''\<rparr>\<rparr>"

text \<open>
  A component whose one display name is \<^verbatim>\<open>toString\<close>, against the theme that declares
  nothing, and the closure the call builds for it: no slot.
\<close>

definition toStringOptions :: options where
  "toStringOptions =
     (buttonOptions bareTheme flagsNone)
       \<lparr>allDisplayNames := [''toString''], primaryDisplayName := ''toString''\<rparr>"

definition inheritedClosure :: closure where
  "inheritedClosure =
     \<lparr>cl_options = toStringOptions, cl_cacheEnabled = False, cl_mergedStyles = [],
      cl_styleParam = makeStyleParam toStringOptions (JPrim PUndefined),
      cl_rendererParam = makeRendererParam toStringOptions,
      cl_componentCacheKey = []\<rparr>"

text \<open>The closure for the theme that declares nothing, with caching.\<close>

definition cachingBareClosure :: closure where
  "cachingBareClosure =
     \<lparr>cl_options = buttonOptions bareTheme flagsCaching, cl_cacheEnabled = True,
      cl_mergedStyles = defaultStyles,
      cl_styleParam = makeStyleParam (buttonOptions bareTheme flagsCaching) (JPrim PUndefined),
      cl_rendererParam = makeRendererParam (buttonOptions bareTheme flagsCaching),
      cl_componentCacheKey = ''Button:{}::falsefalse''\<rparr>"

section \<open>Between a write and a read\<close>

text \<open>
  What may happen to the state after a value has been stored through an accessor under
  the key \<open>k\<close> of the theme \<open>t\<close> and before it is read: calls of \<^verbatim>\<open>resolveStyles\<close>;
  anything done elsewhere, which cannot touch the two weak maps because the module keeps
  them to itself (another call's objects taking the place of the present ones is such a
  step); reads of a style and of a class that come back; and writes through the two
  accessors, except a write through that accessor under that key of that theme. The memo
  property of the slot a step reads or writes is a data property.
\<close>

datatype accessor = StyleAccessor | ClassAccessor

inductive later :: "host \<Rightarrow> accessor \<Rightarrow> nat \<Rightarrow> string \<Rightarrow> state \<Rightarrow> state \<Rightarrow> bool"
  for h :: host and written :: accessor and t :: nat and k :: string where
  at_once: "later h written t k st st"
| call: "later h written t k st st1 \<Longrightarrow> resolveStyles h opts rv st1 = Inr (cl, st2)
    \<Longrightarrow> later h written t k st st2"
| elsewhere: "later h written t k st st1 \<Longrightarrow> stylesCache st2 = stylesCache st1
    \<Longrightarrow> classesCache st2 = classesCache st1 \<Longrightarrow> later h written t k st st2"
| read_style: "later h written t k st st1
    \<Longrightarrow> map_of (cl_mergedStyles cl) (lazyEvaluationKey s) = None
    \<Longrightarrow> resolvedStyles_get n h cl s st1 = returns v st2 \<Longrightarrow> later h written t k st st2"
| read_class: "later h written t k st st1
    \<Longrightarrow> map_of (cl_mergedStyles cl) (lazyEvaluationKey s) = None
    \<Longrightarrow> classes_get n h cl s st1 = returns c st2 \<Longrightarrow> later h written t k st st2"
| write_style: "later h written t k st st1
    \<Longrightarrow> map_of (cl_mergedStyles cl) (lazyEvaluationKey s) = None
    \<Longrightarrow> written \<noteq> StyleAccessor \<or> cachingTheme cl \<noteq> Some t \<or> slotCacheKey cl s \<noteq> k
    \<Longrightarrow> later h written t k st (resolvedStyles_set cl s v st1)"
| write_class: "later h written t k st st1
    \<Longrightarrow> map_of (cl_mergedStyles cl) (lazyEvaluationKey s) = None
    \<Longrightarrow> written \<noteq> ClassAccessor \<or> cachingTheme cl \<noteq> Some t \<or> slotCacheKey cl s \<noteq> k
    \<Longrightarrow> later h written t k st (classes_set cl s c st1)"

section \<open>Vocabulary for the proofs\<close>

text \<open>
  The part of the state that belongs to class names, and an outcome that, when it
  returns, leaves a projection of the state as it was.
\<close>

definition classFields ::
  "state \<Rightarrow> (string \<rightharpoonup> string option) \<times> (nat \<rightharpoonup> (string \<rightharpoonup> string option)) \<times> string list" where
  "classFields st = (classes st, classesCache st, renderCalls st)"

definition preserves :: "(state \<Rightarrow> 'b) \<Rightarrow> state \<Rightarrow> 'a outcome \<Rightarrow> bool" where
  "preserves proj st r = (\<forall>x st'. r = returns x st' \<longrightarrow> proj st' = proj st)"

text \<open>An outcome that, when it returns, returns a state with a given property.\<close>

definition maintains :: "(state \<Rightarrow> bool) \<Rightarrow> 'a outcome \<Rightarrow> bool" where
  "maintains P r = (\<forall>x st'. r = returns x st' \<longrightarrow> P st')"

text \<open>The value an outcome returns, and a projection of the state it returns.\<close>

definition returned :: "'a outcome \<Rightarrow> 'a option" where
  "returned r = (case r of Some (Inr (x, st)) \<Rightarrow> Some x | _ \<Rightarrow> None)"

definition final :: "(state \<Rightarrow> 'b) \<Rightarrow> 'a outcome \<Rightarrow> 'b option" where
  "final proj r = (case r of Some (Inr (x, st)) \<Rightarrow> Some (proj st) | _ \<Rightarrow> None)"

text \<open>
  A string without a space in front, at the end or doubled: what "no leading, trailing
  or duplicated spaces" asks of a class name.
\<close>

fun double_space :: "string \<Rightarrow> bool" where
  "double_space (x # y # ys) = ((x = CHR '' '' \<and> y = CHR '' '') \<or> double_space (y # ys))"
| "double_space s = False"

definition tidy :: "string \<Rightarrow> bool" where
  "tidy s = (s = [] \<or> (hd s \<noteq> CHR '' '' \<and> last s \<noteq> CHR '' '' \<and> \<not> double_space s))"

section \<open>Basic facts\<close>

lemma and_then_returns [simp]: "and_then (returns x st) f = f x st"
  by (simp add: and_then_def returns_def)

lemma and_then_throws [simp]: "and_then (throws e) f = throws e"
  by (simp add: and_then_def throws_def)

lemma and_then_None [simp]: "and_then None f = None"
  by (simp add: and_then_def)

lemma returns_eq [simp]: "(returns x st = returns y st') = (x = y \<and> st = st')"
  by (simp add: returns_def)

lemma returns_not_None [simp]: "returns x st \<noteq> None"
  by (simp add: returns_def)

lemma returns_not_throws [simp]: "returns x st \<noteq> throws e"
  by (simp add: returns_def throws_def)

lemma None_not_returns [simp]: "None \<noteq> returns x st"
  by (simp add: returns_def)

lemma throws_not_returns [simp]: "throws e \<noteq> returns x st"
  by (simp add: returns_def throws_def)

lemma returned_returns [simp]: "returned (returns x st) = Some x"
  by (simp add: returned_def returns_def)

lemma final_returns [simp]: "final proj (returns x st) = Some (proj st)"
  by (simp add: final_def returns_def)

lemma and_then_returnsE:
  assumes "and_then r f = returns y st''"
  obtains x st' where "r = returns x st'" and "f x st' = returns y st''"
  using assms by (auto simp: and_then_def returns_def split: option.splits sum.splits)

lemma read_property_data [simp]:
  "map_of slots k = None \<Longrightarrow> read_property getter slots dataProperty k st = returns (dataProperty st k) st"
  by (simp add: read_property_def)

lemma read_property_slot [simp]:
  "map_of slots k = Some f \<Longrightarrow> read_property getter slots dataProperty k st = getter k st"
  by (simp add: read_property_def)

section \<open>What the telemetry steps leave alone\<close>

lemma telemetryPartStart_fields [simp]:
  "stylesCache (snd (telemetryPartStart h st)) = stylesCache st"
  "classesCache (snd (telemetryPartStart h st)) = classesCache st"
  "resolvedStyles (snd (telemetryPartStart h st)) = resolvedStyles st"
  "resolvedStylesDebug (snd (telemetryPartStart h st)) = resolvedStylesDebug st"
  "classes (snd (telemetryPartStart h st)) = classes st"
  "store (snd (telemetryPartStart h st)) = store st"
  "styleCalls (snd (telemetryPartStart h st)) = styleCalls st"
  "renderCalls (snd (telemetryPartStart h st)) = renderCalls st"
  "telemetry (snd (telemetryPartStart h st)) = telemetry st"
  by (simp_all add: telemetryPartStart_def)

lemma updatePerformance_fields [simp]:
  "stylesCache (updatePerformance name g st) = stylesCache st"
  "classesCache (updatePerformance name g st) = classesCache st"
  "resolvedStyles (updatePerformance name g st) = resolvedStyles st"
  "resolvedStylesDebug (updatePerformance name g st) = resolvedStylesDebug st"
  "classes (updatePerformance name g st) = classes st"
  "store (updatePerformance name g st) = store st"
  "styleCalls (updatePerformance name g st) = styleCalls st"
  "renderCalls (updatePerformance name g st) = renderCalls st"
  "ticks (updatePerformance name g st) = ticks st"
  by (simp_all add: updatePerformance_def split: option.splits)

lemma addElapsed_fields [simp]:
  "stylesCache (addElapsed h name start add st) = stylesCache st"
  "classesCache (addElapsed h name start add st) = classesCache st"
  "resolvedStyles (addElapsed h name start add st) = resolvedStyles st"
  "resolvedStylesDebug (addElapsed h name start add st) = resolvedStylesDebug st"
  "classes (addElapsed h name start add st) = classes st"
  "store (addElapsed h name start add st) = store st"
  "styleCalls (addElapsed h name start add st) = styleCalls st"
  "renderCalls (addElapsed h name start add st) = renderCalls st"
  by (simp_all add: addElapsed_def)

lemma countCacheHit_fields [simp]:
  "stylesCache (countCacheHit cl s st) = stylesCache st"
  "classesCache (countCacheHit cl s st) = classesCache st"
  "resolvedStyles (countCacheHit cl s st) = resolvedStyles st"
  "resolvedStylesDebug (countCacheHit cl s st) = resolvedStylesDebug st"
  "classes (countCacheHit cl s st) = classes st"
  "store (countCacheHit cl s st) = store st"
  "styleCalls (countCacheHit cl s st) = styleCalls st"
  "renderCalls (countCacheHit cl s st) = renderCalls st"
  "ticks (countCacheHit cl s st) = ticks st"
  by (simp_all add: countCacheHit_def)

section \<open>The paths of the style getter\<close>

text \<open>
  The lemmas on the memo assume that the memo property of the slot is a data property:
  no slot of the style set is named like another slot followed by \<^verbatim>\<open>__return\<close>.
\<close>

lemma resolvedStyles_set_data:
  "map_of (cl_mergedStyles cl) k = None \<Longrightarrow>
   resolvedStyles_set cl k v st = st\<lparr>resolvedStyles := (resolvedStyles st)(k \<mapsto> v)\<rparr>"
  by (simp add: resolvedStyles_set.simps)

lemma classes_set_data:
  "map_of (cl_mergedStyles cl) k = None \<Longrightarrow>
   classes_set cl k v st = st\<lparr>classes := (classes st)(k \<mapsto> v)\<rparr>"
  by (simp add: classes_set.simps)

lemma style_cache_hit:
  "map_of (cl_mergedStyles cl) s = Some f \<Longrightarrow> cachedStyle cl s st = Some e \<Longrightarrow>
   resolvedStyles_get (Suc n) h cl s st = returns e st"
  by (simp add: resolvedStyles_get.simps)

lemma style_memo_hit:
  "map_of (cl_mergedStyles cl) s = Some f \<Longrightarrow>
   map_of (cl_mergedStyles cl) (lazyEvaluationKey s) = None \<Longrightarrow>
   cachedStyle cl s st = None \<Longrightarrow> truthy_style (stylesData st (lazyEvaluationKey s)) \<Longrightarrow>
   resolvedStyles_get (Suc n) h cl s st = returns (stylesData st (lazyEvaluationKey s)) st"
  by (simp add: resolvedStyles_get.simps)

lemma style_settled_memo:
  assumes "map_of (cl_mergedStyles cl) s = Some f"
    and "map_of (cl_mergedStyles cl) (lazyEvaluationKey s) = None"
    and "cachingTheme cl = None"
    and "resolvedStyles st (lazyEvaluationKey s) = Some v"
    and "truthy_style v"
  shows "resolvedStyles_get (Suc n) h cl s st = returns v st"
  using assms
  by (simp add: resolvedStyles_get.simps cachedStyle_def stylesData_def style_at_def)

lemma style_settled_cache:
  assumes "map_of (cl_mergedStyles cl) s = Some f"
    and "cachingTheme cl = Some t"
    and "stylesCache st t = Some m"
    and "m (slotCacheKey cl s) = Some v"
    and "truthy_style v"
  shows "resolvedStyles_get (Suc n) h cl s st = returns v st"
  using assms
  by (simp add: resolvedStyles_get.simps cachedStyle_def themeCache_def style_at_def)

text \<open>The state after the style function has run, without debug output.\<close>

lemma style_compute:
  assumes "map_of (cl_mergedStyles cl) s = Some f"
    and "map_of (cl_mergedStyles cl) (lazyEvaluationKey s) = None"
    and "cachedStyle cl s st = None"
    and "\<not> truthy_style (stylesData st (lazyEvaluationKey s))"
    and "\<not> debugOutput h"
  shows "resolvedStyles_get (Suc n) h cl s st =
    returns (fst (f (cl_styleParam cl) (store st)))
      (addElapsed h (primaryDisplayName (cl_options cl)) (fst (telemetryPartStart h st))
         (\<lambda>ms perf. perf\<lparr>msResolveStylesTotal := msResolveStylesTotal perf + ms\<rparr>)
         ((snd (telemetryPartStart h st))
            \<lparr>store := snd (f (cl_styleParam cl) (store st)),
             styleCalls := styleCalls st @ [s],
             resolvedStyles := (resolvedStyles st)
                (lazyEvaluationKey s \<mapsto> fst (f (cl_styleParam cl) (store st))),
             stylesCache := (case cachingTheme cl of
                  None \<Rightarrow> stylesCache st
                | Some t \<Rightarrow> (stylesCache st)
                    (t \<mapsto> (themeCache (stylesCache st) t)
                       (slotCacheKey cl s \<mapsto> fst (f (cl_styleParam cl) (store st)))))\<rparr>))"
  using assms
  apply (subst resolvedStyles_get.simps)
  apply (simp add: resolvedStyles_set_data Let_def case_prod_beta stylesData_def style_at_def
      split: option.splits)
  apply (auto intro!: state.equality arg_cong [where f = "addElapsed _ _ _ _"])
  done

text \<open>
  The same with debug output, for a style function that returns an object: the getter
  reads itself twice, and by then the memo (or the cache) answers.
\<close>

lemma style_compute_debug:
  assumes slot: "map_of (cl_mergedStyles cl) s = Some f"
    and plain: "map_of (cl_mergedStyles cl) (lazyEvaluationKey s) = None"
    and "cachedStyle cl s st = None"
    and "\<not> truthy_style (stylesData st (lazyEvaluationKey s))"
    and "debugOutput h"
    and "f (cl_styleParam cl) (store st) = (SRef a, sto)"
  shows "resolvedStyles_get (Suc (Suc n)) h cl s st =
    returns (SRef a)
      (addElapsed h (primaryDisplayName (cl_options cl)) (fst (telemetryPartStart h st))
         (\<lambda>ms perf. perf\<lparr>msResolveStylesTotal := msResolveStylesTotal perf + ms\<rparr>)
         ((snd (telemetryPartStart h st))
            \<lparr>store := (if a < length sto then sto[a := (sto ! a)(''_debug'' := None)] else sto),
             styleCalls := styleCalls st @ [s],
             resolvedStyles := (resolvedStyles st)(lazyEvaluationKey s \<mapsto> SRef a),
             resolvedStylesDebug := (resolvedStylesDebug st)
               (s \<mapsto> (case store_get sto a ''_debug'' of
                          None \<Rightarrow> JPrim PUndefined | Some v \<Rightarrow> v)),
             stylesCache := (case cachingTheme cl of
                  None \<Rightarrow> stylesCache st
                | Some t \<Rightarrow> (stylesCache st)
                    (t \<mapsto> (themeCache (stylesCache st) t)(slotCacheKey cl s \<mapsto> SRef a)))\<rparr>))"
proof (cases "cachingTheme cl")
  case None
  show ?thesis
    using assms None
    apply (subst resolvedStyles_get.simps)
    apply (simp add: resolvedStyles_set_data Let_def case_prod_beta stylesData_def
        style_at_def style_settled_memo [OF slot plain None])
    apply (auto intro!: state.equality arg_cong [where f = "addElapsed _ _ _ _"])
    done
next
  case (Some t)
  show ?thesis
    using assms Some
    apply (subst resolvedStyles_get.simps)
    apply (simp add: resolvedStyles_set_data Let_def case_prod_beta stylesData_def
        style_at_def style_settled_cache [OF slot Some])
    apply (auto intro!: state.equality arg_cong [where f = "addElapsed _ _ _ _"])
    done
qed

text \<open>
  Reading and deleting the property \<^verbatim>\<open>_debug\<close> of a truthy value does not throw. So
  the style getter comes back when debug output is off, when the cache or the memo
  answers, or when the style function gives a truthy value. In the case left, line 199
  enters the getter again, which finds neither cache entry nor memo and runs the style
  function once more.
\<close>

lemma truthy_prim_property:
  "truthy_prim p \<Longrightarrow> get_property sto (SPrim p) k = Inr (JPrim PUndefined)"
  "truthy_prim p \<Longrightarrow> delete_property sto (SPrim p) k = Inr sto"
  by (cases p; simp)+

lemma truthy_style_property:
  "truthy_style v \<Longrightarrow> \<exists>payload. get_property sto v k = Inr payload"
  "truthy_style v \<Longrightarrow> \<exists>sto'. delete_property sto v k = Inr sto'"
  by (cases v; simp add: truthy_prim_property)+

lemma style_read_returns:
  assumes slot: "map_of (cl_mergedStyles cl) s = Some f"
    and plain: "map_of (cl_mergedStyles cl) (lazyEvaluationKey s) = None"
    and settles: "\<not> debugOutput h \<or> cachedStyle cl s st \<noteq> None
        \<or> truthy_style (stylesData st (lazyEvaluationKey s))
        \<or> truthy_style (fst (f (cl_styleParam cl) (store st)))"
  shows "\<exists>v st'. resolvedStyles_get (Suc (Suc n)) h cl s st = returns v st'"
proof (cases "cachedStyle cl s st")
  case (Some e)
  then show ?thesis by (simp add: style_cache_hit [OF slot])
next
  case None
  show ?thesis
  proof (cases "truthy_style (stylesData st (lazyEvaluationKey s))")
    case True
    then show ?thesis by (simp add: style_memo_hit [OF slot plain None])
  next
    case False
    show ?thesis
    proof (cases "debugOutput h")
      case dbg: False
      show ?thesis by (simp add: style_compute [OF slot plain None False dbg])
    next
      case dbg: True
      with settles None False have val: "truthy_style (fst (f (cl_styleParam cl) (store st)))"
        by simp
      obtain payload sto' where
        "get_property (snd (f (cl_styleParam cl) (store st)))
           (fst (f (cl_styleParam cl) (store st))) ''_debug'' = Inr payload"
        "delete_property (snd (f (cl_styleParam cl) (store st)))
           (fst (f (cl_styleParam cl) (store st))) ''_debug'' = Inr sto'"
        using truthy_style_property [OF val] by blast
      note props = this
      show ?thesis
      proof (cases "cachingTheme cl")
        case None
        show ?thesis
          using slot plain \<open>cachedStyle cl s st = None\<close> False dbg val None props
          apply (subst resolvedStyles_get.simps)
          apply (simp add: resolvedStyles_set_data Let_def case_prod_beta stylesData_def
              style_at_def style_settled_memo [OF slot plain None])
          done
      next
        case (Some t)
        show ?thesis
          using slot plain \<open>cachedStyle cl s st = None\<close> False dbg val Some props
          apply (subst resolvedStyles_get.simps)
          apply (simp add: resolvedStyles_set_data Let_def case_prod_beta stylesData_def
              style_at_def style_settled_cache [OF slot Some])
          done
      qed
    qed
  qed
qed

lemma no_caching_misses:
  "cachingTheme cl = None \<Longrightarrow> cachedStyle cl s st = None"
  "cachingTheme cl = None \<Longrightarrow> cachedClass cl s st = None"
  by (simp_all add: cachedStyle_def cachedClass_def)

section \<open>The paths of the class getter\<close>

lemma class_cache_hit:
  "map_of (cl_mergedStyles cl) s = Some f \<Longrightarrow> cachedClass cl s st = Some e \<Longrightarrow>
   classes_get (Suc n) h cl s st = returns (slotClass cl s e) (countCacheHit cl s st)"
  by (simp add: classes_get.simps)

lemma class_memo_hit:
  "map_of (cl_mergedStyles cl) s = Some f \<Longrightarrow>
   map_of (cl_mergedStyles cl) (lazyEvaluationKey s) = None \<Longrightarrow>
   cachedClass cl s st = None \<Longrightarrow> truthy_class (classesData st (lazyEvaluationKey s)) \<Longrightarrow>
   classes_get (Suc n) h cl s st =
     returns (slotClass cl s (classesData st (lazyEvaluationKey s))) st"
  by (simp add: classes_get.simps)

text \<open>The style value is truthy: the renderer runs and its result is stored.\<close>

lemma class_render:
  assumes "map_of (cl_mergedStyles cl) s = Some f"
    and "map_of (cl_mergedStyles cl) (lazyEvaluationKey s) = None"
    and "cachedClass cl s st = None"
    and "\<not> truthy_class (classesData st (lazyEvaluationKey s))"
    and "resolvedStyles_get n h cl s st = returns styleObj st2"
    and "truthy_style styleObj"
  shows "classes_get (Suc n) h cl s st =
    returns (slotClass cl s
               (Some (renderRule (cl_options cl) styleObj (cl_rendererParam cl) (store st2))))
      (addElapsed h (primaryDisplayName (cl_options cl)) (fst (telemetryPartStart h st2))
         (\<lambda>ms perf. perf\<lparr>msRenderStylesTotal := msRenderStylesTotal perf + ms\<rparr>)
         ((snd (telemetryPartStart h st2))
            \<lparr>renderCalls := renderCalls st2 @ [s],
             classes := (classes st2)(lazyEvaluationKey s \<mapsto>
                Some (renderRule (cl_options cl) styleObj (cl_rendererParam cl) (store st2))),
             classesCache := (case cachingTheme cl of
                  None \<Rightarrow> classesCache st2
                | Some t \<Rightarrow> (classesCache st2)
                    (t \<mapsto> (themeCache (classesCache st2) t)(slotCacheKey cl s \<mapsto>
                       Some (renderRule (cl_options cl) styleObj (cl_rendererParam cl)
                               (store st2)))))\<rparr>))"
  using assms
  apply (subst classes_get.simps)
  apply (simp add: classes_set_data Let_def case_prod_beta classesData_def class_at_def
      split: option.splits)
  apply (auto intro!: state.equality arg_cong [where f = "addElapsed _ _ _ _"])
  done

text \<open>The style value is falsy: only the clock and the render timer move.\<close>

lemma class_not_rendered:
  assumes "map_of (cl_mergedStyles cl) s = Some f"
    and "map_of (cl_mergedStyles cl) (lazyEvaluationKey s) = None"
    and "cachedClass cl s st = None"
    and "\<not> truthy_class (classesData st (lazyEvaluationKey s))"
    and "resolvedStyles_get n h cl s st = returns styleObj st2"
    and "\<not> truthy_style styleObj"
  shows "classes_get (Suc n) h cl s st =
    returns (slotClass cl s (classesData st2 (lazyEvaluationKey s)))
      (addElapsed h (primaryDisplayName (cl_options cl)) (fst (telemetryPartStart h st2))
         (\<lambda>ms perf. perf\<lparr>msRenderStylesTotal := msRenderStylesTotal perf + ms\<rparr>)
         (snd (telemetryPartStart h st2)))"
  using assms
  apply (subst classes_get.simps)
  apply (simp add: classes_set_data Let_def case_prod_beta classesData_def class_at_def
      split: option.splits)
  done

section \<open>The style getter leaves the class names alone\<close>

lemma preserves_returns: "proj st' = proj st \<Longrightarrow> preserves proj st (returns x st')"
  by (simp add: preserves_def)

lemma preserves_throws [simp]: "preserves proj st (throws e)"
  by (simp add: preserves_def)

lemma preserves_None [simp]: "preserves proj st None"
  by (simp add: preserves_def)

lemma preserves_and_then:
  assumes "preserves proj st r"
    and "\<And>x st'. proj st' = proj st \<Longrightarrow> preserves proj st (f x st')"
  shows "preserves proj st (and_then r f)"
  using assms unfolding preserves_def by (metis and_then_returnsE)

lemma preserves_shift:
  "proj st1 = proj st \<Longrightarrow> preserves proj st1 r \<Longrightarrow> preserves proj st r"
  by (simp add: preserves_def)

lemma preserves_read_property:
  assumes "proj st1 = proj st" and "\<And>k st. preserves proj st (getter k st)"
  shows "preserves proj st (read_property getter slots dat k st1)"
  using assms by (auto simp: read_property_def preserves_def split: option.splits)

lemma classFields_updates [simp]:
  "classFields (st\<lparr>stylesCache := a\<rparr>) = classFields st"
  "classFields (st\<lparr>resolvedStyles := b\<rparr>) = classFields st"
  "classFields (st\<lparr>resolvedStylesDebug := c\<rparr>) = classFields st"
  "classFields (st\<lparr>store := d\<rparr>) = classFields st"
  "classFields (st\<lparr>telemetry := e\<rparr>) = classFields st"
  "classFields (st\<lparr>ticks := f\<rparr>) = classFields st"
  "classFields (st\<lparr>styleCalls := g\<rparr>) = classFields st"
  by (simp_all add: classFields_def)

lemma classFields_telemetry [simp]:
  "classFields (snd (telemetryPartStart h st)) = classFields st"
  "classFields (addElapsed h name start add st) = classFields st"
  "classFields (updatePerformance name upd st) = classFields st"
  "classFields (countCacheHit cl s st) = classFields st"
  by (simp_all add: classFields_def)

lemma classFields_resolvedStyles_set [simp]:
  "classFields (resolvedStyles_set cl k v st) = classFields st"
proof (induction cl k v st rule: resolvedStyles_set.induct)
  case (1 cl k val st)
  show ?case
  proof (cases "map_of (cl_mergedStyles cl) k")
    case None
    then show ?thesis by (simp add: resolvedStyles_set.simps)
  next
    case (Some f)
    with 1 [OF Some] show ?thesis
      by (subst resolvedStyles_set.simps) (simp split: option.splits)
  qed
qed

lemma style_get_preserves_classFields:
  "preserves classFields st (resolvedStyles_get n h cl s st)"
proof (induction n arbitrary: s st)
  case 0
  then show ?case by simp
next
  case (Suc n)
  note inner = preserves_read_property [where proj = classFields, OF _ Suc.IH]
    preserves_shift [where proj = classFields, OF _ Suc.IH]
  show ?case
    apply (subst resolvedStyles_get.simps)
    apply (auto split: option.splits sum.splits simp: Let_def case_prod_beta
        intro!: preserves_and_then preserves_returns inner)
    done
qed

lemma style_get_classes:
  assumes "resolvedStyles_get n h cl s st = returns v st'"
  shows "classes st' = classes st" and "classesCache st' = classesCache st"
    and "renderCalls st' = renderCalls st"
  using style_get_preserves_classFields [of st n h cl s] assms
  by (simp_all add: preserves_def classFields_def)

text \<open>
  With no class in the cache or in the memo, the class getter does what the style getter
  does: it returns when that returns, with the rendered class for a truthy style value
  and the memo as it was for a falsy one.
\<close>

lemma class_read_follows_style:
  assumes slot: "map_of (cl_mergedStyles cl) s = Some f"
    and plain: "map_of (cl_mergedStyles cl) (lazyEvaluationKey s) = None"
    and miss: "cachedClass cl s st = None"
    and memo: "\<not> truthy_class (classesData st (lazyEvaluationKey s))"
  shows "case resolvedStyles_get n h cl s st of
           None \<Rightarrow> classes_get (Suc n) h cl s st = None
         | Some (Inl e) \<Rightarrow> classes_get (Suc n) h cl s st = throws e
         | Some (Inr (styleObj, st2)) \<Rightarrow>
             \<exists>st'. classes_get (Suc n) h cl s st =
               returns (slotClass cl s
                  (if truthy_style styleObj
                   then Some (renderRule (cl_options cl) styleObj (cl_rendererParam cl) (store st2))
                   else classesData st (lazyEvaluationKey s))) st'"
proof (cases "resolvedStyles_get n h cl s st")
  case None
  with slot plain miss memo show ?thesis
    by (simp add: classes_get.simps)
next
  case (Some outcome)
  show ?thesis
  proof (cases outcome)
    case (Inl e)
    with Some have style: "resolvedStyles_get n h cl s st = throws e"
      by (simp add: throws_def)
    have "classes_get (Suc n) h cl s st = throws e"
      using slot plain miss memo by (simp add: classes_get.simps style)
    with Some Inl show ?thesis
      by simp
  next
    case (Inr r)
    obtain styleObj st2 where r: "r = (styleObj, st2)"
      by (cases r)
    with Some Inr have style: "resolvedStyles_get n h cl s st = returns styleObj st2"
      by (simp add: returns_def)
    have same: "classesData st2 (lazyEvaluationKey s) = classesData st (lazyEvaluationKey s)"
      using style_get_classes(1) [OF style] by (simp add: classesData_def)
    show ?thesis
    proof (cases "truthy_style styleObj")
      case True
      then show ?thesis
        using Some Inr r class_render [OF slot plain miss memo style True] by simp
    next
      case False
      then show ?thesis
        using Some Inr r class_not_rendered [OF slot plain miss memo style False] same
        by simp
    qed
  qed
qed

section \<open>What a setter stores\<close>

lemma slotCacheKey_inj [simp]: "(slotCacheKey cl a = slotCacheKey cl b) = (a = b)"
  by (simp add: slotCacheKey_def)

lemma lazyEvaluationKey_longer [simp]: "length s < length (lazyEvaluationKey s)"
  by (simp add: lazyEvaluationKey_def)

lemma resolvedStyles_set_other_entry:
  "length s < length k \<Longrightarrow>
   themeCache (stylesCache (resolvedStyles_set cl k v st)) t (slotCacheKey cl s)
     = themeCache (stylesCache st) t (slotCacheKey cl s)"
proof (induction cl k v st rule: resolvedStyles_set.induct)
  case (1 cl k val st)
  show ?case
  proof (cases "map_of (cl_mergedStyles cl) k")
    case None
    then show ?thesis by (simp add: resolvedStyles_set.simps)
  next
    case (Some f)
    from "1.prems" have "length s < length (lazyEvaluationKey k)"
      by (simp add: lazyEvaluationKey_def)
    from "1.IH" [OF Some this] Some "1.prems" show ?thesis
      by (subst resolvedStyles_set.simps) (auto simp: themeCache_def split: option.splits)
  qed
qed

lemma resolvedStyles_set_entry:
  assumes "map_of (cl_mergedStyles cl) s = Some f" and "cachingTheme cl = Some t"
  shows "themeCache (stylesCache (resolvedStyles_set cl s v st)) t (slotCacheKey cl s) = Some v"
  using assms
  by (subst resolvedStyles_set.simps)
     (simp add: resolvedStyles_set_other_entry, simp add: themeCache_def)

lemma classes_set_other_entry:
  "length s < length k \<Longrightarrow>
   themeCache (classesCache (classes_set cl k v st)) t (slotCacheKey cl s)
     = themeCache (classesCache st) t (slotCacheKey cl s)"
proof (induction cl k v st rule: classes_set.induct)
  case (1 cl k val st)
  show ?case
  proof (cases "map_of (cl_mergedStyles cl) k")
    case None
    then show ?thesis by (simp add: classes_set.simps)
  next
    case (Some f)
    from "1.prems" have "length s < length (lazyEvaluationKey k)"
      by (simp add: lazyEvaluationKey_def)
    from "1.IH" [OF Some this] Some "1.prems" show ?thesis
      by (subst classes_set.simps) (auto simp: themeCache_def split: option.splits)
  qed
qed

lemma classes_set_entry:
  assumes "map_of (cl_mergedStyles cl) s = Some f" and "cachingTheme cl = Some t"
  shows "themeCache (classesCache (classes_set cl s v st)) t (slotCacheKey cl s) = Some v"
  using assms
  by (subst classes_set.simps)
     (simp add: classes_set_other_entry, simp add: themeCache_def)

section \<open>What a read finds in the cache\<close>

lemma style_read_cached:
  assumes "cachingTheme cl = Some t" and "map_of (cl_mergedStyles cl) s = Some f"
    and "themeCache (stylesCache st) t (slotCacheKey cl s) = Some v" and "truthy_style v"
  shows "resolvedStyles_get (Suc n) h cl s st = returns v st"
  using assms by (simp add: style_cache_hit cachedStyle_def style_at_def)

lemma class_read_cached:
  assumes "cachingTheme cl = Some t" and "map_of (cl_mergedStyles cl) s = Some f"
    and "themeCache (classesCache st) t (slotCacheKey cl s) = Some (Some c)"
  shows "classes_get (Suc n) h cl s st = returns (slotClass cl s (Some c)) (countCacheHit cl s st)"
  using assms by (simp add: class_cache_hit cachedClass_def class_at_def)

text \<open>
  What the compute path of the style getter leaves in the cache, for a truthy value of
  the style function.
\<close>

lemma style_compute_entry:
  assumes slot: "map_of (cl_mergedStyles cl) s = Some f"
    and plain: "map_of (cl_mergedStyles cl) (lazyEvaluationKey s) = None"
    and miss: "cachedStyle cl s st = None"
    and memo: "\<not> truthy_style (stylesData st (lazyEvaluationKey s))"
    and val: "truthy_style (fst (f (cl_styleParam cl) (store st)))"
    and caching: "cachingTheme cl = Some t"
  shows "\<exists>st1. resolvedStyles_get (Suc (Suc n)) h cl s st
             = returns (fst (f (cl_styleParam cl) (store st))) st1
           \<and> themeCache (stylesCache st1) t (slotCacheKey cl s)
               = Some (fst (f (cl_styleParam cl) (store st)))"
proof (cases "debugOutput h")
  case True
  obtain payload sto' where
    "get_property (snd (f (cl_styleParam cl) (store st))) (fst (f (cl_styleParam cl) (store st)))
       ''_debug'' = Inr payload"
    "delete_property (snd (f (cl_styleParam cl) (store st))) (fst (f (cl_styleParam cl) (store st)))
       ''_debug'' = Inr sto'"
    using truthy_style_property [OF val] by blast
  then show ?thesis
    using slot plain miss memo True val caching
    apply (subst resolvedStyles_get.simps)
    apply (simp add: resolvedStyles_set_data Let_def case_prod_beta stylesData_def
        style_at_def style_settled_cache [OF slot caching])
    apply (simp add: themeCache_def)
    done
next
  case False
  show ?thesis
    unfolding style_compute [OF slot plain miss memo False]
    using caching by (simp add: themeCache_def)
qed

lemma class_render_entry:
  assumes slot: "map_of (cl_mergedStyles cl) s = Some f"
    and plain: "map_of (cl_mergedStyles cl) (lazyEvaluationKey s) = None"
    and miss: "cachedClass cl s st = None"
    and memo: "\<not> truthy_class (classesData st (lazyEvaluationKey s))"
    and style: "resolvedStyles_get n h cl s st = returns styleObj st'"
    and obj: "truthy_style styleObj"
    and caching: "cachingTheme cl = Some t"
  shows "\<exists>st1. classes_get (Suc n) h cl s st =
             returns (slotClass cl s (Some (renderRule (cl_options cl) styleObj
                        (cl_rendererParam cl) (store st')))) st1
           \<and> themeCache (classesCache st1) t (slotCacheKey cl s)
               = Some (Some (renderRule (cl_options cl) styleObj (cl_rendererParam cl) (store st')))"
  unfolding class_render [OF slot plain miss memo style obj]
  using caching by (simp add: themeCache_def)

section \<open>The call\<close>

lemma noVariableOverrides_iff:
  "noVariableOverrides flags p =
     (if enableBooleanVariablesCaching flags
      then isNil (variables p)
           \<or> (isPlainObject (variables p) \<and> hasOnlyBooleanVariables (variables p))
      else \<not> truthy (variables p))"
  by (cases "variables p" rule: isNil.cases) (simp_all add: noVariableOverrides_def)

lemma resolveStyles_cacheEnabled:
  "resolveStyles h opts rv st = Inr (cl, st') \<Longrightarrow>
   cl_cacheEnabled cl = cacheEnabled (performanceFlags opts) (props opts)"
  by (auto simp: resolveStyles_def split: option.splits sum.splits)

lemma mergedStyles_defined:
  "theme opts \<noteq> None \<Longrightarrow> \<exists>ms. mergedStyles h opts = Inr ms"
  by (auto simp: mergedStyles_def themeStyles_def Let_def split: option.splits)

lemma resolveStyles_proceeds:
  assumes "checkPerformanceFlags h (performanceFlags opts) = None"
    and "mergedStyles h opts = Inr ms"
  shows "resolveStyles h opts rv st =
     Inr (\<lparr>cl_options = opts,
           cl_cacheEnabled = cacheEnabled (performanceFlags opts) (props opts),
           cl_mergedStyles = ms,
           cl_styleParam = makeStyleParam opts rv,
           cl_rendererParam = makeRendererParam opts,
           cl_componentCacheKey = componentCacheKey h opts\<rparr>,
          (initCaches opts st)
            \<lparr>resolvedStyles := Map.empty, resolvedStylesDebug := Map.empty,
             classes := Map.empty\<rparr>)"
  using assms by (simp add: resolveStyles_def)

lemma componentCacheKey_spec: "componentCacheKey h opts = spec_componentCacheKey h opts"
  by (simp add: componentCacheKey_def spec_componentCacheKey_def propsCacheKey_def
      variablesCacheKey_def)

section \<open>A cache entry stays\<close>

text \<open>
  A truthy style entry and a string class entry of a theme's store are left as they are
  by every read: the lazy path writes under its own key only after it has found no such
  entry there.
\<close>

lemma maintains_returns: "P st' \<Longrightarrow> maintains P (returns x st')"
  by (simp add: maintains_def)

lemma maintains_throws [simp]: "maintains P (throws e)"
  by (simp add: maintains_def)

lemma maintains_None [simp]: "maintains P None"
  by (simp add: maintains_def)

lemma maintains_and_then:
  assumes "maintains P r" and "\<And>x st'. P st' \<Longrightarrow> maintains P (f x st')"
  shows "maintains P (and_then r f)"
  using assms unfolding maintains_def by (metis and_then_returnsE)

lemma miss_write_keeps_style:
  assumes "cachedStyle cl s st = None" and "cachingTheme cl = Some t'"
    and "themeCache (stylesCache st) t k = Some v" and "truthy_style v"
  shows "themeCache ((stylesCache st)(t' \<mapsto> (themeCache (stylesCache st) t')(slotCacheKey cl s \<mapsto> x)))
           t k = Some v"
  using assms
  by (auto simp: cachedStyle_def themeCache_def style_at_def Let_def split: option.splits if_splits)

lemma miss_write_keeps_style_unfolded:
  assumes "cachedStyle cl s st = None" and "cachingTheme cl = Some t'"
    and "themeCache (stylesCache st) t k = Some v" and "truthy_style v"
  shows "themeCache (\<lambda>a. if a = t'
            then Some ((themeCache (stylesCache st) t')(slotCacheKey cl s \<mapsto> x))
            else stylesCache st a) t k = Some v"
  using assms
  by (auto simp: cachedStyle_def themeCache_def style_at_def Let_def split: option.splits if_splits)

lemma style_get_keeps_style_entry:
  assumes v: "truthy_style v"
    and plain: "map_of (cl_mergedStyles cl) (lazyEvaluationKey s) = None"
  shows "themeCache (stylesCache st) t k = Some v \<Longrightarrow>
    maintains (\<lambda>st. themeCache (stylesCache st) t k = Some v) (resolvedStyles_get n h cl s st)"
proof (induction n arbitrary: st)
  case 0
  then show ?case by simp
next
  case (Suc n)
  show ?case
  proof (cases "map_of (cl_mergedStyles cl) s")
    case None
    with Suc.prems show ?thesis
      by (simp add: resolvedStyles_get.simps maintains_returns)
  next
    case (Some f)
    show ?thesis
    proof (cases "cachedStyle cl s st")
      case hit: (Some e)
      with Suc.prems show ?thesis
        by (simp add: style_cache_hit [OF Some] maintains_returns)
    next
      case miss: None
      note keeps = miss_write_keeps_style [OF miss _ Suc.prems v]
        miss_write_keeps_style_unfolded [OF miss _ Suc.prems v]
      show ?thesis
        using Some miss plain Suc.prems
        apply (subst resolvedStyles_get.simps)
        apply (auto simp: Let_def case_prod_beta resolvedStyles_set_data keeps
            split: option.splits sum.splits
            intro!: maintains_and_then maintains_returns Suc.IH)
        done
    qed
  qed
qed

lemma style_read_keeps_style_entry:
  assumes "map_of (cl_mergedStyles cl) (lazyEvaluationKey s) = None"
    and "resolvedStyles_get n h cl s st = returns r st'"
    and "themeCache (stylesCache st) t k = Some v" and "truthy_style v"
  shows "themeCache (stylesCache st') t k = Some v"
  using style_get_keeps_style_entry [OF assms(4) assms(1) assms(3), of n h] assms(2)
  by (simp add: maintains_def)

lemma miss_write_keeps_class:
  assumes "cachedClass cl s st = None" and "cachingTheme cl = Some t'"
    and "themeCache (classesCache st) t k = Some (Some c)"
  shows "themeCache ((classesCache st)(t' \<mapsto> (themeCache (classesCache st) t')(slotCacheKey cl s \<mapsto> x)))
           t k = Some (Some c)"
  using assms
  by (auto simp: cachedClass_def themeCache_def class_at_def Let_def split: option.splits if_splits)

lemma class_read_keeps_entries:
  assumes plain: "map_of (cl_mergedStyles cl) (lazyEvaluationKey s) = None"
    and read: "classes_get n h cl s st = returns r st'"
  shows "truthy_style v \<Longrightarrow> themeCache (stylesCache st) t k = Some v
      \<Longrightarrow> themeCache (stylesCache st') t k = Some v"
    and "themeCache (classesCache st) t k = Some (Some c)
      \<Longrightarrow> themeCache (classesCache st') t k = Some (Some c)"
proof -
  from read obtain m where n: "n = Suc m"
    by (cases n) simp_all
  have "(truthy_style v \<longrightarrow> themeCache (stylesCache st) t k = Some v
          \<longrightarrow> themeCache (stylesCache st') t k = Some v)
      \<and> (themeCache (classesCache st) t k = Some (Some c)
          \<longrightarrow> themeCache (classesCache st') t k = Some (Some c))"
  proof (cases "map_of (cl_mergedStyles cl) s")
    case None
    with read n show ?thesis
      by (simp add: classes_get.simps)
  next
    case slot: (Some f)
    show ?thesis
    proof (cases "cachedClass cl s st")
      case (Some e)
      with read n show ?thesis
        by (auto simp: class_cache_hit [OF slot])
    next
      case miss: None
      show ?thesis
      proof (cases "truthy_class (classesData st (lazyEvaluationKey s))")
        case True
        with read n show ?thesis
          by (simp add: class_memo_hit [OF slot plain miss])
      next
        case memo: False
        note follows = class_read_follows_style [OF slot plain miss memo, of m h]
        show ?thesis
        proof (cases "resolvedStyles_get m h cl s st")
          case None
          with follows read n show ?thesis by simp
        next
          case (Some outcome)
          show ?thesis
          proof (cases outcome)
            case (Inl e)
            with Some follows read n show ?thesis by simp
          next
            case (Inr pair)
            obtain styleObj st2 where pair: "pair = (styleObj, st2)"
              by (cases pair)
            with Some Inr have style: "resolvedStyles_get m h cl s st = returns styleObj st2"
              by (simp add: returns_def)
            note kept = style_read_keeps_style_entry [OF plain style, of t k v]
            note same = style_get_classes [OF style]
            show ?thesis
            proof (cases "truthy_style styleObj")
              case True
              from read [unfolded n class_render [OF slot plain miss memo style True]]
              show ?thesis
                using kept same miss_write_keeps_class [OF miss, of _ t k c]
                by (auto split: option.splits)
            next
              case False
              from read [unfolded n class_not_rendered [OF slot plain miss memo style False]]
              show ?thesis
                using kept same by auto
            qed
          qed
        qed
      qed
    qed
  qed
  then show "truthy_style v \<Longrightarrow> themeCache (stylesCache st) t k = Some v
      \<Longrightarrow> themeCache (stylesCache st') t k = Some v"
    and "themeCache (classesCache st) t k = Some (Some c)
      \<Longrightarrow> themeCache (classesCache st') t k = Some (Some c)"
    by simp_all
qed

text \<open>A write under another key, and a call, leave the entry as well.\<close>

lemma style_write_keeps_entries:
  assumes plain: "map_of (cl_mergedStyles cl) (lazyEvaluationKey s) = None"
  shows "cachingTheme cl \<noteq> Some t \<or> slotCacheKey cl s \<noteq> k \<Longrightarrow>
      themeCache (stylesCache (resolvedStyles_set cl s v st)) t k = themeCache (stylesCache st) t k"
    and "classesCache (resolvedStyles_set cl s v st) = classesCache st"
  using plain
  by (subst resolvedStyles_set.simps,
      auto simp: resolvedStyles_set_data themeCache_def split: option.splits)+

lemma class_write_keeps_entries:
  assumes plain: "map_of (cl_mergedStyles cl) (lazyEvaluationKey s) = None"
  shows "cachingTheme cl \<noteq> Some t \<or> slotCacheKey cl s \<noteq> k \<Longrightarrow>
      themeCache (classesCache (classes_set cl s c st)) t k = themeCache (classesCache st) t k"
    and "stylesCache (classes_set cl s c st) = stylesCache st"
  using plain
  by (subst classes_set.simps,
      auto simp: classes_set_data themeCache_def split: option.splits)+

lemma call_keeps_entries:
  assumes "resolveStyles h opts rv st = Inr (cl, st')"
  shows "themeCache (stylesCache st') t = themeCache (stylesCache st) t"
    and "themeCache (classesCache st') t = themeCache (classesCache st) t"
  using assms
  by (auto simp: resolveStyles_def initCaches_def themeCache_def
      split: option.splits sum.splits if_splits)

lemma call_closure:
  assumes "resolveStyles h opts rv st = Inr (cl, st')"
  shows "\<exists>st1. resolveStyles h opts rv st0 = Inr (cl, st1)"
  using assms by (auto simp: resolveStyles_def split: option.splits sum.splits)

lemma later_keeps_style_entry:
  assumes "later h StyleAccessor t k st st2" and "themeCache (stylesCache st) t k = Some v"
    and "truthy_style v"
  shows "themeCache (stylesCache st2) t k = Some v"
  using assms
proof (induction rule: later.induct)
  case at_once
  then show ?case by simp
next
  case (call st1 opts rv cl st2)
  then show ?case by (simp add: call_keeps_entries)
next
  case (elsewhere st1 st2)
  then show ?case by (simp add: themeCache_def)
next
  case (read_style st1 cl s n v' st2)
  then show ?case by (auto intro: style_read_keeps_style_entry)
next
  case (read_class st1 cl s n c st2)
  then show ?case by (auto intro: class_read_keeps_entries(1))
next
  case (write_style st1 cl s v')
  then show ?case by (simp add: style_write_keeps_entries)
next
  case (write_class st1 cl s c)
  then show ?case by (simp add: class_write_keeps_entries themeCache_def)
qed

lemma later_keeps_class_entry:
  assumes "later h ClassAccessor t k st st2" and "themeCache (classesCache st) t k = Some (Some c)"
  shows "themeCache (classesCache st2) t k = Some (Some c)"
  using assms
proof (induction rule: later.induct)
  case at_once
  then show ?case by simp
next
  case (call st1 opts rv cl st2)
  then show ?case by (simp add: call_keeps_entries)
next
  case (elsewhere st1 st2)
  then show ?case by (simp add: themeCache_def)
next
  case (read_style st1 cl s n v' st2)
  then show ?case by (simp add: style_get_classes(2) themeCache_def)
next
  case (read_class st1 cl s n c' st2)
  then show ?case by (auto intro: class_read_keeps_entries(2))
next
  case (write_style st1 cl s v')
  then show ?case by (simp add: style_write_keeps_entries themeCache_def)
next
  case (write_class st1 cl s c')
  then show ?case by (simp add: class_write_keeps_entries)
qed

section \<open>The class names composed by cx\<close>

lemma cx_skips_undefined [simp]: "cx [a, None, b] = cx [a, b]"
  by (simp add: cx_def)

lemma double_space_append:
  "double_space (a @ b) =
     (double_space a \<or> double_space b
      \<or> (a \<noteq> [] \<and> b \<noteq> [] \<and> last a = CHR '' '' \<and> hd b = CHR '' ''))"
proof (induction a rule: double_space.induct)
  fix x y ys
  assume "double_space ((y # ys) @ b) =
     (double_space (y # ys) \<or> double_space b
      \<or> (y # ys \<noteq> [] \<and> b \<noteq> [] \<and> last (y # ys) = CHR '' '' \<and> hd b = CHR '' ''))"
  then show "double_space ((x # y # ys) @ b) =
     (double_space (x # y # ys) \<or> double_space b
      \<or> (x # y # ys \<noteq> [] \<and> b \<noteq> [] \<and> last (x # y # ys) = CHR '' '' \<and> hd b = CHR '' ''))"
    by auto
next
  show "double_space ([] @ b) =
     (double_space [] \<or> double_space b
      \<or> ([] \<noteq> [] \<and> b \<noteq> [] \<and> last [] = CHR '' '' \<and> hd b = CHR '' ''))"
    by simp
next
  fix v
  show "double_space ([v] @ b) =
     (double_space [v] \<or> double_space b
      \<or> ([v] \<noteq> [] \<and> b \<noteq> [] \<and> last [v] = CHR '' '' \<and> hd b = CHR '' ''))"
    by (cases b) auto
qed

lemma double_space_Cons:
  "double_space (c # s) = ((s \<noteq> [] \<and> c = CHR '' '' \<and> hd s = CHR '' '') \<or> double_space s)"
  by (cases s) auto

lemma truthy_class_nonempty: "truthy_class a \<Longrightarrow> the a \<noteq> []"
  by (cases a) simp_all

lemma join_nonempty: "xs \<noteq> [] \<Longrightarrow> \<forall>x \<in> set xs. x \<noteq> [] \<Longrightarrow> join sep xs \<noteq> []"
  by (induction sep xs rule: join.induct) auto

lemma hd_join: "xs \<noteq> [] \<Longrightarrow> \<forall>x \<in> set xs. x \<noteq> [] \<Longrightarrow> hd (join sep xs) = hd (hd xs)"
  by (induction sep xs rule: join.induct) auto

lemma tidy_join:
  "\<forall>x \<in> set xs. x \<noteq> [] \<and> tidy x \<Longrightarrow> tidy (join '' '' xs)"
proof (induction "'' ''" xs rule: join.induct)
  case 1
  then show ?case by (simp add: tidy_def)
next
  case (2 x)
  then show ?case by simp
next
  case (3 x y ys)
  then have rest: "tidy (join '' '' (y # ys))" and ne: "join '' '' (y # ys) \<noteq> []"
    and hd: "hd (join '' '' (y # ys)) = hd y"
    by (simp_all add: join_nonempty hd_join)
  from 3 have x: "x \<noteq> []" "tidy x" and y: "y \<noteq> []" "tidy y" by simp_all
  show ?case
    using rest ne hd x y
    by (auto simp: tidy_def double_space_append double_space_Cons)
qed

lemma tidy_cx:
  "\<forall>a \<in> set args. truthy_class a \<longrightarrow> tidy (the a) \<Longrightarrow> tidy (cx args)"
  unfolding cx_def
  by (rule tidy_join) (auto simp: truthy_class_nonempty)

section \<open>The example calls\<close>

lemma button_call_caching:
  "resolveStyles (sampleHost isProd dbg) (buttonOptions buttonTheme flagsCaching)
     (JPrim PUndefined) (freshState tel) = Inr (cachingClosure, cachingState tel)"
  by (simp add: resolveStyles_def checkPerformanceFlags_def mergedStyles_def themeStyles_def
      componentStylesOf_def objectPrototype_def buttonOptions_def buttonTheme_def flagsCaching_def sampleHost_def propsWith_def
      noInlineStylesOverrides_def cacheEnabled_def noVariableOverrides_def cachingClosure_def
      componentCacheKey_def propsCacheKey_def variablesCacheKey_def bool_string_def
      initCaches_def freshState_def cachingState_def)

lemma button_call_plain:
  "resolveStyles (sampleHost isProd dbg) (buttonOptions buttonTheme flagsNone)
     (JPrim PUndefined) (freshState tel) = Inr (plainClosure, freshState tel)"
  by (simp add: resolveStyles_def checkPerformanceFlags_def mergedStyles_def themeStyles_def
      componentStylesOf_def objectPrototype_def buttonOptions_def buttonTheme_def flagsNone_def sampleHost_def propsWith_def
      noInlineStylesOverrides_def cacheEnabled_def noVariableOverrides_def plainClosure_def
      componentCacheKey_def propsCacheKey_def variablesCacheKey_def bool_string_def
      initCaches_def freshState_def)

lemma button_call_bare:
  "resolveStyles (sampleHost isProd dbg) (buttonOptions bareTheme flagsNone)
     (JPrim PUndefined) (freshState tel) = Inr (bareClosure, freshState tel)"
  by (simp add: resolveStyles_def checkPerformanceFlags_def mergedStyles_def themeStyles_def
      componentStylesOf_def objectPrototype_def buttonOptions_def bareTheme_def flagsNone_def sampleHost_def propsWith_def
      noInlineStylesOverrides_def cacheEnabled_def noVariableOverrides_def bareClosure_def
      componentCacheKey_def propsCacheKey_def variablesCacheKey_def bool_string_def
      initCaches_def freshState_def)

lemma bare_call_caching:
  "resolveStyles (sampleHost isProd dbg) (buttonOptions bareTheme flagsCaching)
     (JPrim PUndefined) (freshState tel)
   = Inr (cachingBareClosure,
          (freshState tel)\<lparr>stylesCache := [2 \<mapsto> Map.empty], classesCache := [2 \<mapsto> Map.empty]\<rparr>)"
  by (simp add: resolveStyles_def checkPerformanceFlags_def mergedStyles_def themeStyles_def
      componentStylesOf_def objectPrototype_def buttonOptions_def bareTheme_def flagsCaching_def sampleHost_def propsWith_def
      noInlineStylesOverrides_def cacheEnabled_def noVariableOverrides_def cachingBareClosure_def
      componentCacheKey_def propsCacheKey_def variablesCacheKey_def bool_string_def
      initCaches_def freshState_def)

lemma freshState_fields [simp]:
  "stylesData (freshState tel) k = SPrim PUndefined"
  "classesData (freshState tel) k = None"
  "store (freshState tel) = []"
  "renderCalls (freshState tel) = []"
  "styleCalls (freshState tel) = []"
  "telemetry (freshState tel) = tel"
  "resolvedStyles (freshState tel) = Map.empty"
  "classes (freshState tel) = Map.empty"
  "stylesCache (freshState tel) = Map.empty"
  "classesCache (freshState tel) = Map.empty"
  by (simp_all add: freshState_def stylesData_def classesData_def style_at_def class_at_def)

lemma not_debug_sampleHost [simp]: "\<not> debugOutput (sampleHost isProd False)"
  by (simp add: debugOutput_def sampleHost_def)

text \<open>The example closure with caching, on the state of a first call.\<close>

lemma cachingClosure_facts:
  "cachingTheme cachingClosure = Some 1"
  "map_of (cl_mergedStyles cachingClosure) ''root'' = Some redStyle"
  "map_of (cl_mergedStyles cachingClosure) ''icon'' = Some undefinedStyle"
  "map_of (cl_mergedStyles cachingClosure) (lazyEvaluationKey ''root'') = None"
  "map_of (cl_mergedStyles cachingClosure) (lazyEvaluationKey ''icon'') = None"
  "slotCacheKey cachingClosure ''root'' = ''Button:{}::falsefalseroot''"
  by (simp_all add: cachingTheme_def cachingClosure_def buttonOptions_def buttonTheme_def
      lazyEvaluationKey_def slotCacheKey_def)

lemma cachingClosure_names:
  "componentClassName (cl_options cachingClosure) = Some ''ui-button''"
  "className (props (cl_options cachingClosure)) = Some ''custom''"
  "renderRule (cl_options cachingClosure) = sampleRenderRule"
  "primaryDisplayName (cl_options cachingClosure) = ''Button''"
  by (simp_all add: cachingClosure_def buttonOptions_def propsWith_def)

lemma cachingState_misses:
  "cachedStyle cachingClosure s (cachingState tel) = None"
  "cachedClass cachingClosure s (cachingState tel) = None"
  "stylesData (cachingState tel) k = SPrim PUndefined"
  "classesData (cachingState tel) k = None"
  "store (cachingState tel) = []"
  by (simp_all add: cachedStyle_def cachedClass_def cachingClosure_facts cachingState_def
      freshState_def themeCache_def style_at_def class_at_def stylesData_def classesData_def)

lemma plainClosure_facts:
  "cachingTheme plainClosure = None"
  "map_of (cl_mergedStyles plainClosure) ''root'' = Some redStyle"
  "map_of (cl_mergedStyles plainClosure) ''icon'' = Some undefinedStyle"
  "map_of (cl_mergedStyles plainClosure) (lazyEvaluationKey ''root'') = None"
  "map_of (cl_mergedStyles plainClosure) (lazyEvaluationKey ''icon'') = None"
  by (simp_all add: cachingTheme_def plainClosure_def lazyEvaluationKey_def)

lemma plainClosure_names:
  "componentClassName (cl_options plainClosure) = Some ''ui-button''"
  "className (props (cl_options plainClosure)) = Some ''custom''"
  "renderRule (cl_options plainClosure) = sampleRenderRule"
  by (simp_all add: plainClosure_def buttonOptions_def propsWith_def)

lemma bareClosure_facts:
  "cachingTheme bareClosure = None"
  "map_of (cl_mergedStyles bareClosure) ''root'' = Some emptyStyle"
  "map_of (cl_mergedStyles bareClosure) (lazyEvaluationKey ''root'') = None"
  "componentClassName (cl_options bareClosure) = Some ''ui-button''"
  "className (props (cl_options bareClosure)) = Some ''custom''"
  "renderRule (cl_options bareClosure) = sampleRenderRule"
  by (simp_all add: cachingTheme_def bareClosure_def defaultStyles_def lazyEvaluationKey_def
      buttonOptions_def propsWith_def)

lemma cachingBareClosure_facts:
  "cachingTheme cachingBareClosure = Some 2"
  "map_of (cl_mergedStyles cachingBareClosure) ''root'' = Some emptyStyle"
  "map_of (cl_mergedStyles cachingBareClosure) (lazyEvaluationKey ''root'') = None"
  "componentClassName (cl_options cachingBareClosure) = Some ''ui-button''"
  "className (props (cl_options cachingBareClosure)) = Some ''custom''"
  "renderRule (cl_options cachingBareClosure) = sampleRenderRule"
  "slotCacheKey cachingBareClosure ''root'' = ''Button:{}::falsefalseroot''"
  by (simp_all add: cachingTheme_def cachingBareClosure_def defaultStyles_def
      lazyEvaluationKey_def buttonOptions_def propsWith_def bareTheme_def slotCacheKey_def)

lemma first_style_read:
  "\<exists>st2. resolvedStyles_get (Suc 0) (sampleHost False False) cachingClosure ''root''
            (cachingState tel) = returns (SRef 0) st2
         \<and> store st2 = snd (redStyle (cl_styleParam cachingClosure) [])"
proof -
  have memo: "\<not> truthy_style (stylesData (cachingState tel) (lazyEvaluationKey ''root''))"
    by (simp add: cachingState_misses)
  show ?thesis
    using style_compute [OF cachingClosure_facts(2) cachingClosure_facts(4)
        cachingState_misses(1) memo not_debug_sampleHost, where n = 0]
    by (simp add: cachingState_misses redStyle_def)
qed

section \<open>C1: invoked once\<close>

text \<open>
  What holds of C1 for the style function: without caching, the first read of a slot's
  style value runs the style function once, and a second read returns the same object
  without running it.
\<close>

lemma style_read_twice_without_caching:
  assumes slot: "map_of (cl_mergedStyles cl) s = Some f"
    and plain: "map_of (cl_mergedStyles cl) (lazyEvaluationKey s) = None"
    and off: "cachingTheme cl = None"
    and memo: "\<not> truthy_style (stylesData st (lazyEvaluationKey s))"
    and obj: "f (cl_styleParam cl) (store st) = (SRef a, sto)"
  shows "\<exists>st1. resolvedStyles_get (Suc (Suc n)) h cl s st = returns (SRef a) st1
      \<and> resolvedStyles_get (Suc m) h cl s st1 = returns (SRef a) st1
      \<and> styleCalls st1 = styleCalls st @ [s]"
proof -
  note miss = no_caching_misses(1) [OF off]
  have again: "resolvedStyles_get (Suc m) h cl s st1 = returns (SRef a) st1"
    if "resolvedStyles st1 (lazyEvaluationKey s) = Some (SRef a)" for st1
    using that by (intro style_settled_memo [OF slot plain off]) simp_all
  show ?thesis
  proof (cases "debugOutput h")
    case True
    show ?thesis
      unfolding style_compute_debug [OF slot plain miss memo True obj]
      by (simp add: again)
  next
    case False
    show ?thesis
      unfolding style_compute [OF slot plain miss memo False] obj
      by (simp add: again)
  qed
qed

text \<open>
  C1 on the code: without caching, the theme declares no style set, so the root style
  is the empty object, for which the renderer returns the empty class. Two reads of the
  root class in one call return the same class, the style function has run once, but the
  renderer has run twice: the empty string in the memo is falsy at line 251.
\<close>

theorem empty_class_rendered_on_every_read:
  "returned (resolveAndReadClassTwice (sampleHost False False)
       (buttonOptions bareTheme flagsNone) (JPrim PUndefined) ''root'' (freshState None))
     = Some (Some ''ui-button custom'')
   \<and> final renderCalls (resolveAndReadClassTwice (sampleHost False False)
       (buttonOptions bareTheme flagsNone) (JPrim PUndefined) ''root'' (freshState None))
     = Some [''root'', ''root'']
   \<and> final styleCalls (resolveAndReadClassTwice (sampleHost False False)
       (buttonOptions bareTheme flagsNone) (JPrim PUndefined) ''root'' (freshState None))
     = Some [''root'']"
  by (simp add: resolveAndReadClassTwice_def button_call_bare
      readClassTwice_def classes_get.simps resolvedStyles_get.simps
      bareClosure_facts no_caching_misses cachedStyle_def cachedClass_def
      resolvedStyles_set_data classes_set_data emptyStyle_def
      telemetryPartStart_def telemetryEnabled_def addElapsed_def
      stylesData_def classesData_def style_at_def class_at_def slotClass_def cx_def
      store_get_def Let_def)

text \<open>With caching the same two reads render once: line 232 takes the empty string as a hit.\<close>

lemma empty_class_cached_once:
  "returned (resolveAndReadClassTwice (sampleHost False False)
       (buttonOptions bareTheme flagsCaching) (JPrim PUndefined) ''root'' (freshState None))
     = Some (Some ''ui-button custom'')
   \<and> final renderCalls (resolveAndReadClassTwice (sampleHost False False)
       (buttonOptions bareTheme flagsCaching) (JPrim PUndefined) ''root'' (freshState None))
     = Some [''root'']"
  by (simp add: resolveAndReadClassTwice_def bare_call_caching
      readClassTwice_def classes_get.simps resolvedStyles_get.simps
      cachingBareClosure_facts cachedStyle_def cachedClass_def
      resolvedStyles_set_data classes_set_data emptyStyle_def themeCache_def
      telemetryPartStart_def telemetryEnabled_def addElapsed_def countCacheHit_def
      telemetryPerformance_def
      stylesData_def classesData_def style_at_def class_at_def slotClass_def cx_def
      store_get_def Let_def)

section \<open>C2: cache eligibility\<close>

text \<open>
  C2, as stated, fails on the code: with both flags set and no inline override, an
  instance of a class whose only field is boolean satisfies the specification's rule,
  but \<^verbatim>\<open>_.isPlainObject\<close> rejects it and caching is off.
\<close>

theorem cacheEnabled_class_instance_variables:
  "spec_cacheEnabled flagsBoth (propsWith classInstanceVariables)
   \<and> \<not> cacheEnabled flagsBoth (propsWith classInstanceVariables)"
  by (simp add: spec_cacheEnabled_def spec_noVariableOverrides_def cacheEnabled_def
      noVariableOverrides_def noInlineStylesOverrides_def hasOnlyBooleanVariables_def
      flagsBoth_def propsWith_def classInstanceVariables_def)

text \<open>
  C2 (amended): caching is enabled exactly when \<^verbatim>\<open>enableStylesCaching\<close> is set, the
  call supplies neither an inline styles override nor an inline design override, and
  there are no variable overrides; there are none iff variables are absent (undefined or
  null; without the boolean-variable optimization: falsy), or the optimization is on and
  variables is a plain object whose every value is boolean, undefined or null. Any other
  variables under the optimization switch caching off for the call and the configuration
  check raises nothing.
\<close>

theorem cacheEnabled_rule:
  "cacheEnabled flags p =
     (enableStylesCaching flags \<and> \<not> truthy (styles p) \<and> \<not> truthy (design p)
      \<and> ((if enableBooleanVariablesCaching flags then isNil (variables p)
           else \<not> truthy (variables p))
          \<or> (enableBooleanVariablesCaching flags \<and> isPlainObject (variables p)
              \<and> list_all (\<lambda>kv. booleanOrAbsent (snd kv)) (entries (variables p)))))
   \<and> (enableStylesCaching flags \<and> enableBooleanVariablesCaching flags
        \<and> \<not> list_all (\<lambda>kv. booleanOrAbsent (snd kv)) (entries (variables p))
      \<longrightarrow> \<not> cacheEnabled flags p \<and> checkPerformanceFlags h flags = None)"
proof -
  have nil_plain: "isNil (variables p) \<Longrightarrow> list_all (\<lambda>kv. booleanOrAbsent (snd kv)) (entries (variables p))"
    by (cases "variables p" rule: isNil.cases) simp_all
  show ?thesis
    using nil_plain
    by (auto simp: cacheEnabled_def noVariableOverrides_iff noInlineStylesOverrides_def
        hasOnlyBooleanVariables_def checkPerformanceFlags_def)
qed

theorem cacheEnabled_rule_witness:
  "\<not> cacheEnabled flagsBoth (propsWith stringVariables)
   \<and> checkPerformanceFlags (sampleHost False False) flagsBoth = None"
  using cacheEnabled_rule [of flagsBoth "propsWith stringVariables" "sampleHost False False"]
  by (simp add: flagsBoth_def propsWith_def stringVariables_def)

section \<open>C3: a cache entry is read back\<close>

text \<open>
  C3, as stated, fails on the code for a falsy value: lines 177 and 182 test the style
  entry and the memo for truthiness, so after \<^verbatim>\<open>null\<close> has been written to the style
  accessor of \<^verbatim>\<open>root\<close> a read runs the style function and returns its object; and
  after \<^verbatim>\<open>undefined\<close> has been written to the class accessor a read renders the class.
\<close>

theorem falsy_value_not_read_back:
  "returned (resolvedStyles_get (Suc 0) (sampleHost False False) cachingClosure ''root''
      (resolvedStyles_set cachingClosure ''root'' (SPrim PNull) (cachingState None)))
     = Some (SRef 0)
   \<and> returned (classes_get (Suc (Suc 0)) (sampleHost False False) cachingClosure ''root''
      (classes_set cachingClosure ''root'' None (cachingState None)))
     = Some (Some ''ui-button gen-123 custom'')"
proof -
  have written: "resolvedStyles_set cachingClosure ''root'' (SPrim PNull) (cachingState None)
      = (cachingState None)
          \<lparr>stylesCache := [1 \<mapsto> [''Button:{}::falsefalseroot'' \<mapsto> SPrim PNull]],
           resolvedStyles := [lazyEvaluationKey ''root'' \<mapsto> SPrim PNull]\<rparr>"
    apply (subst resolvedStyles_set.simps)
    apply (simp add: cachingClosure_facts resolvedStyles_set_data)
    apply (simp add: cachingState_def themeCache_def)
    done
  have cwritten: "classes_set cachingClosure ''root'' None (cachingState None)
      = (cachingState None)
          \<lparr>classesCache := [1 \<mapsto> [''Button:{}::falsefalseroot'' \<mapsto> None]],
           classes := [lazyEvaluationKey ''root'' \<mapsto> None]\<rparr>"
    apply (subst classes_set.simps)
    apply (simp add: cachingClosure_facts classes_set_data)
    apply (simp add: cachingState_def themeCache_def)
    done
  have style: "returned (resolvedStyles_get (Suc 0) (sampleHost False False) cachingClosure ''root''
      (resolvedStyles_set cachingClosure ''root'' (SPrim PNull) (cachingState None)))
     = Some (SRef 0)"
    unfolding written
    by (simp add: resolvedStyles_get.simps cachingClosure_facts cachedStyle_def themeCache_def
        style_at_def stylesData_def resolvedStyles_set_data redStyle_def Let_def
        telemetryPartStart_def telemetryEnabled_def addElapsed_def cachingState_def)
  have cls: "returned (classes_get (Suc (Suc 0)) (sampleHost False False) cachingClosure ''root''
      (classes_set cachingClosure ''root'' None (cachingState None)))
     = Some (Some ''ui-button gen-123 custom'')"
    unfolding cwritten
    by (simp add: classes_get.simps resolvedStyles_get.simps cachingClosure_facts
        cachingClosure_names cachedStyle_def cachedClass_def themeCache_def
        style_at_def class_at_def stylesData_def classesData_def
        resolvedStyles_set_data classes_set_data redStyle_def Let_def
        telemetryPartStart_def telemetryEnabled_def addElapsed_def cachingState_def
        slotClass_def cx_def store_get_def)
  from style cls show ?thesis by simp
qed

text \<open>
  C3 (amended): with caching on, a truthy value written to the style accessor of a slot,
  a string written to its class accessor (the empty string too: it is a hit), a truthy
  value the lazy path computed for the style and a class the lazy path rendered is what
  any call under the same theme and the same slot cache key (\<open>reader\<close>) reads afterwards,
  whatever calls, reads and other writes have happened in between, short of a write
  through the same accessor under that key. A class of
  the root slot comes back composed with the reader's component and caller class names.
  The value of a style is the reference to the style object. The lazy path is taken when
  neither cache nor memo answers; its memo property is a data property.
\<close>

theorem cached_value_is_read_back:
  assumes writer: "cachingTheme writer = Some t" "map_of (cl_mergedStyles writer) s = Some f"
    and reader: "cachingTheme reader = Some t" "map_of (cl_mergedStyles reader) s = Some g"
      "slotCacheKey reader s = slotCacheKey writer s"
  shows "(\<forall>v st st2. truthy_style v
            \<and> later h StyleAccessor t (slotCacheKey writer s) (resolvedStyles_set writer s v st) st2
          \<longrightarrow> resolvedStyles_get (Suc n) h reader s st2 = returns v st2)
    \<and> (\<forall>c st st2. later h ClassAccessor t (slotCacheKey writer s) (classes_set writer s (Some c) st) st2
          \<longrightarrow> classes_get (Suc n) h reader s st2
              = returns (slotClass reader s (Some c)) (countCacheHit reader s st2))
    \<and> (\<forall>st. map_of (cl_mergedStyles writer) (lazyEvaluationKey s) = None
            \<and> cachedStyle writer s st = None
            \<and> \<not> truthy_style (stylesData st (lazyEvaluationKey s))
            \<and> truthy_style (fst (f (cl_styleParam writer) (store st)))
          \<longrightarrow> (\<exists>st1. resolvedStyles_get (Suc (Suc m)) h writer s st
                       = returns (fst (f (cl_styleParam writer) (store st))) st1
                 \<and> (\<forall>st2. later h StyleAccessor t (slotCacheKey writer s) st1 st2
                       \<longrightarrow> resolvedStyles_get (Suc n) h reader s st2
                           = returns (fst (f (cl_styleParam writer) (store st))) st2)))
    \<and> (\<forall>st styleObj st'. map_of (cl_mergedStyles writer) (lazyEvaluationKey s) = None
            \<and> cachedClass writer s st = None
            \<and> \<not> truthy_class (classesData st (lazyEvaluationKey s))
            \<and> resolvedStyles_get m h writer s st = returns styleObj st'
            \<and> truthy_style styleObj
          \<longrightarrow> (\<exists>st1. classes_get (Suc m) h writer s st
                   = returns (slotClass writer s (Some (renderRule (cl_options writer) styleObj
                        (cl_rendererParam writer) (store st')))) st1
                 \<and> (\<forall>st2. later h ClassAccessor t (slotCacheKey writer s) st1 st2
                       \<longrightarrow> classes_get (Suc n) h reader s st2
                           = returns (slotClass reader s (Some (renderRule (cl_options writer) styleObj
                                (cl_rendererParam writer) (store st'))))
                               (countCacheHit reader s st2))))"
proof (intro conjI allI impI)
  fix v :: styleval and st st2 :: state
  assume a: "truthy_style v
      \<and> later h StyleAccessor t (slotCacheKey writer s) (resolvedStyles_set writer s v st) st2"
  then have "themeCache (stylesCache st2) t (slotCacheKey reader s) = Some v"
    using later_keeps_style_entry [OF _ resolvedStyles_set_entry [OF writer(2) writer(1)]] reader(3)
    by auto
  with a show "resolvedStyles_get (Suc n) h reader s st2 = returns v st2"
    by (intro style_read_cached [OF reader(1) reader(2)]) simp_all
next
  fix c :: string and st st2 :: state
  assume "later h ClassAccessor t (slotCacheKey writer s) (classes_set writer s (Some c) st) st2"
  then have "themeCache (classesCache st2) t (slotCacheKey reader s) = Some (Some c)"
    using later_keeps_class_entry [OF _ classes_set_entry [OF writer(2) writer(1)]] reader(3)
    by auto
  then show "classes_get (Suc n) h reader s st2
              = returns (slotClass reader s (Some c)) (countCacheHit reader s st2)"
    by (rule class_read_cached [OF reader(1) reader(2)])
next
  fix st :: state
  assume a: "map_of (cl_mergedStyles writer) (lazyEvaluationKey s) = None
            \<and> cachedStyle writer s st = None
            \<and> \<not> truthy_style (stylesData st (lazyEvaluationKey s))
            \<and> truthy_style (fst (f (cl_styleParam writer) (store st)))"
  let ?v = "fst (f (cl_styleParam writer) (store st))"
  from a obtain st1 where st1: "resolvedStyles_get (Suc (Suc m)) h writer s st = returns ?v st1"
    and entry: "themeCache (stylesCache st1) t (slotCacheKey writer s) = Some ?v"
    using style_compute_entry [OF writer(2) _ _ _ _ writer(1)] by blast
  have "resolvedStyles_get (Suc n) h reader s st2 = returns ?v st2"
    if "later h StyleAccessor t (slotCacheKey writer s) st1 st2" for st2 :: state
    using later_keeps_style_entry [OF that entry] a reader(3)
    by (intro style_read_cached [OF reader(1) reader(2)]) simp_all
  with st1 show "\<exists>st1. resolvedStyles_get (Suc (Suc m)) h writer s st = returns ?v st1
                 \<and> (\<forall>st2. later h StyleAccessor t (slotCacheKey writer s) st1 st2
                       \<longrightarrow> resolvedStyles_get (Suc n) h reader s st2 = returns ?v st2)"
    by blast
next
  fix st st' :: state and styleObj :: styleval
  assume a: "map_of (cl_mergedStyles writer) (lazyEvaluationKey s) = None
            \<and> cachedClass writer s st = None
            \<and> \<not> truthy_class (classesData st (lazyEvaluationKey s))
            \<and> resolvedStyles_get m h writer s st = returns styleObj st'
            \<and> truthy_style styleObj"
  let ?c = "renderRule (cl_options writer) styleObj (cl_rendererParam writer) (store st')"
  from a obtain st1 where st1: "classes_get (Suc m) h writer s st
        = returns (slotClass writer s (Some ?c)) st1"
    and entry: "themeCache (classesCache st1) t (slotCacheKey writer s) = Some (Some ?c)"
    using class_render_entry [OF writer(2) _ _ _ _ _ writer(1)] by blast
  have "classes_get (Suc n) h reader s st2
          = returns (slotClass reader s (Some ?c)) (countCacheHit reader s st2)"
    if "later h ClassAccessor t (slotCacheKey writer s) st1 st2" for st2 :: state
    using later_keeps_class_entry [OF that entry] reader(3)
    by (intro class_read_cached [OF reader(1) reader(2)]) simp_all
  with st1 show "\<exists>st1. classes_get (Suc m) h writer s st
                   = returns (slotClass writer s (Some ?c)) st1
                 \<and> (\<forall>st2. later h ClassAccessor t (slotCacheKey writer s) st1 st2
                       \<longrightarrow> classes_get (Suc n) h reader s st2
                           = returns (slotClass reader s (Some ?c)) (countCacheHit reader s st2))"
    by blast
qed

theorem cached_value_is_read_back_witness:
  "(\<exists>st1 v st2.
      resolveStyles (sampleHost False False) (buttonOptions buttonTheme flagsCaching)
         (JPrim PUndefined)
         (resolvedStyles_set cachingClosure ''root'' (SRef 0) (cachingState None))
        = Inr (cachingClosure, st1)
      \<and> resolvedStyles_get (Suc (Suc 0)) (sampleHost False False) cachingClosure ''icon'' st1
          = returns v st2
      \<and> resolvedStyles_get (Suc 0) (sampleHost False False) cachingClosure ''root'' st2
          = returns (SRef 0) st2)
   \<and> classes_get (Suc 0) (sampleHost False False) cachingClosure ''root''
        (resolvedStyles_set cachingClosure ''root'' (SRef 9)
           (classes_set cachingClosure ''root'' (Some []) (cachingState None)))
     = returns (Some ''ui-button custom'')
         (countCacheHit cachingClosure ''root''
            (resolvedStyles_set cachingClosure ''root'' (SRef 9)
               (classes_set cachingClosure ''root'' (Some []) (cachingState None))))
   \<and> (\<exists>st1 st2.
        resolvedStyles_get (Suc (Suc 0)) (sampleHost False False) cachingClosure ''root''
           (cachingState None) = returns (SRef 0) st1
        \<and> resolveStyles (sampleHost False False) (buttonOptions buttonTheme flagsCaching)
             (JPrim PUndefined) st1 = Inr (cachingClosure, st2)
        \<and> resolvedStyles_get (Suc 0) (sampleHost False False) cachingClosure ''root'' st2
            = returns (SRef 0) st2)
   \<and> (\<exists>st1. classes_get (Suc (Suc 0)) (sampleHost False False) cachingClosure ''root''
                (cachingState None) = returns (Some ''ui-button gen-123 custom'') st1
             \<and> classes_get (Suc 0) (sampleHost False False) cachingClosure ''root''
                  (st1\<lparr>classes := Map.empty\<rparr>)
                = returns (Some ''ui-button gen-123 custom'')
                    (countCacheHit cachingClosure ''root'' (st1\<lparr>classes := Map.empty\<rparr>)))"
proof -
  let ?h = "sampleHost False False"
  let ?opts = "buttonOptions buttonTheme flagsCaching"
  let ?key = "slotCacheKey cachingClosure ''root''"
  note T = cached_value_is_read_back [OF cachingClosure_facts(1,2) cachingClosure_facts(1,2) refl,
      where n = 0 and h = ?h]
  note again = call_closure [OF button_call_caching [of False False None]]
  have A: "\<exists>st1 v st2.
      resolveStyles ?h ?opts (JPrim PUndefined)
         (resolvedStyles_set cachingClosure ''root'' (SRef 0) (cachingState None))
        = Inr (cachingClosure, st1)
      \<and> resolvedStyles_get (Suc (Suc 0)) ?h cachingClosure ''icon'' st1 = returns v st2
      \<and> resolvedStyles_get (Suc 0) ?h cachingClosure ''root'' st2 = returns (SRef 0) st2"
  proof -
    let ?st0 = "resolvedStyles_set cachingClosure ''root'' (SRef 0) (cachingState None)"
    from again obtain st1 where
      call: "resolveStyles ?h ?opts (JPrim PUndefined) ?st0 = Inr (cachingClosure, st1)"
      by blast
    obtain v st2 where
      read: "resolvedStyles_get (Suc (Suc 0)) ?h cachingClosure ''icon'' st1 = returns v st2"
      using style_read_returns [OF cachingClosure_facts(3) cachingClosure_facts(5), of ?h st1 0]
      by auto
    have "later ?h StyleAccessor 1 ?key ?st0 st2"
      by (rule later.read_style [OF later.call [OF later.at_once call]
            cachingClosure_facts(5) read])
    with T [where m = 0, THEN conjunct1, rule_format, of "SRef 0" "cachingState None" st2]
    have "resolvedStyles_get (Suc 0) ?h cachingClosure ''root'' st2 = returns (SRef 0) st2"
      by simp
    with call read show ?thesis
      by blast
  qed
  have B: "classes_get (Suc 0) ?h cachingClosure ''root''
        (resolvedStyles_set cachingClosure ''root'' (SRef 9)
           (classes_set cachingClosure ''root'' (Some []) (cachingState None)))
     = returns (Some ''ui-button custom'')
         (countCacheHit cachingClosure ''root''
            (resolvedStyles_set cachingClosure ''root'' (SRef 9)
               (classes_set cachingClosure ''root'' (Some []) (cachingState None))))"
  proof -
    let ?st0 = "classes_set cachingClosure ''root'' (Some []) (cachingState None)"
    have other: "ClassAccessor \<noteq> StyleAccessor \<or> cachingTheme cachingClosure \<noteq> Some 1
        \<or> slotCacheKey cachingClosure ''root'' \<noteq> ?key"
      by simp
    have "later ?h ClassAccessor 1 ?key ?st0 (resolvedStyles_set cachingClosure ''root'' (SRef 9) ?st0)"
      by (rule later.write_style [OF later.at_once cachingClosure_facts(4) other])
    with T [where m = 0, THEN conjunct2, THEN conjunct1, rule_format,
        of "[]" "cachingState None" "resolvedStyles_set cachingClosure ''root'' (SRef 9) ?st0"]
    show ?thesis
      by (simp add: slotClass_def cx_def cachingClosure_names)
  qed
  have C: "\<exists>st1 st2.
        resolvedStyles_get (Suc (Suc 0)) ?h cachingClosure ''root'' (cachingState None)
          = returns (SRef 0) st1
        \<and> resolveStyles ?h ?opts (JPrim PUndefined) st1 = Inr (cachingClosure, st2)
        \<and> resolvedStyles_get (Suc 0) ?h cachingClosure ''root'' st2 = returns (SRef 0) st2"
  proof -
    from T [where m = 0, THEN conjunct2, THEN conjunct2, THEN conjunct1, rule_format,
        of "cachingState None"]
    obtain st1 where
      first: "resolvedStyles_get (Suc (Suc 0)) ?h cachingClosure ''root'' (cachingState None)
          = returns (SRef 0) st1"
      and kept: "\<And>st2. later ?h StyleAccessor 1 ?key st1 st2
          \<Longrightarrow> resolvedStyles_get (Suc 0) ?h cachingClosure ''root'' st2 = returns (SRef 0) st2"
      by (auto simp: cachingClosure_facts cachingState_misses redStyle_def)
    from again obtain st2 where
      call: "resolveStyles ?h ?opts (JPrim PUndefined) st1 = Inr (cachingClosure, st2)"
      by blast
    have "later ?h StyleAccessor 1 ?key st1 st2"
      by (rule later.call [OF later.at_once call])
    from first call kept [OF this] show ?thesis
      by blast
  qed
  have D: "\<exists>st1. classes_get (Suc (Suc 0)) ?h cachingClosure ''root'' (cachingState None)
               = returns (Some ''ui-button gen-123 custom'') st1
             \<and> classes_get (Suc 0) ?h cachingClosure ''root'' (st1\<lparr>classes := Map.empty\<rparr>)
                = returns (Some ''ui-button gen-123 custom'')
                    (countCacheHit cachingClosure ''root'' (st1\<lparr>classes := Map.empty\<rparr>))"
  proof -
    obtain st2 where style: "resolvedStyles_get (Suc 0) ?h cachingClosure
        ''root'' (cachingState None) = returns (SRef 0) st2"
      and sto: "store st2 = snd (redStyle (cl_styleParam cachingClosure) [])"
      using first_style_read by blast
    have rendered: "store_get (store st2) 0 ''color'' = Some (JPrim (PStr ''red''))"
      by (simp add: sto redStyle_def store_get_def)
    from T [where m = "Suc 0", THEN conjunct2, THEN conjunct2, THEN conjunct2, rule_format,
        of "cachingState None" "SRef 0" st2] style
    obtain st1 where
      first: "classes_get (Suc (Suc 0)) ?h cachingClosure ''root'' (cachingState None)
          = returns (Some ''ui-button gen-123 custom'') st1"
      and kept: "\<And>st2. later ?h ClassAccessor 1 ?key st1 st2
          \<Longrightarrow> classes_get (Suc 0) ?h cachingClosure ''root'' st2
              = returns (Some ''ui-button gen-123 custom'') (countCacheHit cachingClosure ''root'' st2)"
      by (auto simp: cachingClosure_facts cachingState_misses rendered slotClass_def cx_def
          cachingClosure_names)
    have "later ?h ClassAccessor 1 ?key st1 (st1\<lparr>classes := Map.empty\<rparr>)"
      by (rule later.elsewhere [OF later.at_once]) simp_all
    from first kept [OF this] show ?thesis
      by blast
  qed
  from A B C D show ?thesis
    by blast
qed

section \<open>C4: the cache key\<close>

text \<open>
  C4: the key a call uses for a slot is the specification's key: with caching, the
  joined display names, the serialized props without \<^verbatim>\<open>className\<close>,
  \<^verbatim>\<open>styles\<close>, \<^verbatim>\<open>design\<close> and \<^verbatim>\<open>variables\<close>, the serialized variables when
  the boolean-variable optimization is on (else the empty string), the rtl flag and the
  disable-animations flag, then the slot name; without caching the base is empty and the
  key is the slot name. It is the key under which both setters store.
\<close>

theorem slot_cache_key:
  assumes call: "resolveStyles h opts rv st = Inr (cl, st')"
  shows "slotCacheKey cl slotName = spec_slotCacheKey h opts slotName
    \<and> (\<not> cacheEnabled (performanceFlags opts) (props opts)
         \<longrightarrow> slotCacheKey cl slotName = slotName)
    \<and> (\<forall>t f v st1. cachingTheme cl = Some t \<and> map_of (cl_mergedStyles cl) slotName = Some f \<longrightarrow>
          themeCache (stylesCache (resolvedStyles_set cl slotName v st1)) t
            (spec_slotCacheKey h opts slotName) = Some v)
    \<and> (\<forall>t f c st1. cachingTheme cl = Some t \<and> map_of (cl_mergedStyles cl) slotName = Some f \<longrightarrow>
          themeCache (classesCache (classes_set cl slotName c st1)) t
            (spec_slotCacheKey h opts slotName) = Some c)"
proof -
  from call have "cl_componentCacheKey cl = componentCacheKey h opts"
    by (auto simp: resolveStyles_def split: option.splits sum.splits)
  then have key: "slotCacheKey cl slotName = spec_slotCacheKey h opts slotName"
    by (simp add: slotCacheKey_def spec_slotCacheKey_def componentCacheKey_spec)
  have off: "\<not> cacheEnabled (performanceFlags opts) (props opts)
      \<Longrightarrow> spec_slotCacheKey h opts slotName = slotName"
    by (simp add: spec_slotCacheKey_def spec_componentCacheKey_def)
  show ?thesis
    using key off resolvedStyles_set_entry [of cl slotName] classes_set_entry [of cl slotName]
    by metis
qed

theorem slot_cache_key_witness:
  "slotCacheKey cachingClosure ''root'' = ''Button:{}::falsefalseroot''
   \<and> themeCache (stylesCache (resolvedStyles_set cachingClosure ''root'' (SRef 0)
        (cachingState None))) 1 ''Button:{}::falsefalseroot'' = Some (SRef 0)
   \<and> themeCache (classesCache (classes_set cachingClosure ''root'' (Some ''gen-123'')
        (cachingState None))) 1 ''Button:{}::falsefalseroot'' = Some (Some ''gen-123'')
   \<and> slotCacheKey plainClosure ''root'' = ''root''"
proof -
  have key: "spec_slotCacheKey (sampleHost False False) (buttonOptions buttonTheme flagsCaching) ''root''
      = ''Button:{}::falsefalseroot''"
    by (simp add: spec_slotCacheKey_def spec_componentCacheKey_def buttonOptions_def
        flagsCaching_def sampleHost_def propsWith_def cacheEnabled_def
        noInlineStylesOverrides_def noVariableOverrides_def bool_string_def)
  have caching: "cachingTheme cachingClosure = Some 1"
    and slot: "map_of (cl_mergedStyles cachingClosure) ''root'' = Some redStyle"
    by (simp_all add: cachingTheme_def cachingClosure_def buttonOptions_def buttonTheme_def)
  have off: "\<not> cacheEnabled (performanceFlags (buttonOptions buttonTheme flagsNone))
       (props (buttonOptions buttonTheme flagsNone))"
    by (simp add: cacheEnabled_def buttonOptions_def flagsNone_def)
  from slot_cache_key [OF button_call_caching [of False False None], where slotName = "''root''"]
    slot_cache_key [OF button_call_plain [of False False None], where slotName = "''root''"]
    key caching slot off
  show ?thesis by metis
qed

section \<open>C5: cache-hit counters\<close>

text \<open>
  On a cache hit the counter of the primary display name moves, the root counter for the
  slot \<^verbatim>\<open>root\<close> and the slots counter otherwise, and no other record changes; the
  telemetry's \<^verbatim>\<open>enabled\<close> flag is not asked.
\<close>

lemma cache_hit_counters:
  assumes "map_of (cl_mergedStyles cl) s = Some f" and "cachedClass cl s st = Some e"
    and "telemetry st = Some t"
    and "performance t (primaryDisplayName (cl_options cl)) = Some perf"
  shows "final telemetry (classes_get (Suc n) h cl s st) =
     Some (Some (t\<lparr>performance := (performance t)
        (primaryDisplayName (cl_options cl) \<mapsto>
           (if s = ''root''
            then perf\<lparr>stylesRootCacheHits := stylesRootCacheHits perf + 1\<rparr>
            else perf\<lparr>stylesSlotsCacheHits := stylesSlotsCacheHits perf + 1\<rparr>))\<rparr>))"
  using assms
  by (simp add: class_cache_hit countCacheHit_def updatePerformance_def telemetryPerformance_def)

text \<open>
  C5 on the code: telemetry is switched off and holds a record for the button. The
  second of two reads of the root class hits the cache, and the root counter goes to one
  while telemetry is still off; the timers, which lines 203 and 277 guard with
  \<^verbatim>\<open>telemetry?.enabled\<close>, have not moved.
\<close>

theorem cache_hit_counted_with_telemetry_disabled:
  "final telemetryEnabled (resolveAndReadClassTwice (sampleHost False False)
       (buttonOptions buttonTheme flagsCaching) (JPrim PUndefined) ''root''
       (freshState disabledTelemetry)) = Some False
   \<and> final (\<lambda>st. telemetryPerformance st ''Button'')
       (resolveAndReadClassTwice (sampleHost False False)
          (buttonOptions buttonTheme flagsCaching) (JPrim PUndefined) ''root''
          (freshState disabledTelemetry))
     = Some (Some \<lparr>stylesRootCacheHits = 1, stylesSlotsCacheHits = 0,
                    msResolveStylesTotal = 0, msRenderStylesTotal = 0\<rparr>)"
  by (simp add: resolveAndReadClassTwice_def button_call_caching
      readClassTwice_def classes_get.simps resolvedStyles_get.simps
      cachingClosure_facts cachingClosure_names cachedStyle_def cachedClass_def
      resolvedStyles_set_data classes_set_data redStyle_def themeCache_def
      cachingState_def disabledTelemetry_def
      telemetryPartStart_def telemetryEnabled_def addElapsed_def countCacheHit_def
      telemetryPerformance_def updatePerformance_def
      stylesData_def classesData_def style_at_def class_at_def slotClass_def cx_def
      store_get_def Let_def)

section \<open>C6: misconfigured flags\<close>

text \<open>
  C6: with \<^verbatim>\<open>enableBooleanVariablesCaching\<close> set and \<^verbatim>\<open>enableStylesCaching\<close> not set,
  a call outside production throws the configuration error, before anything else is
  done; in production no configuration error is raised and the call, given a theme,
  returns with caching off: no cache key, no store touched.
\<close>

theorem misconfigured_flags:
  assumes off: "\<not> enableStylesCaching (performanceFlags opts)"
    and on: "enableBooleanVariablesCaching (performanceFlags opts)"
  shows "(\<not> production h \<longrightarrow> resolveStyles h opts rv st = Inl ConfigurationError)
    \<and> (production h \<longrightarrow>
         resolveStyles h opts rv st \<noteq> Inl ConfigurationError
         \<and> (theme opts \<noteq> None \<longrightarrow>
              (\<exists>cl st'. resolveStyles h opts rv st = Inr (cl, st')
                 \<and> \<not> cl_cacheEnabled cl \<and> cachingTheme cl = None
                 \<and> cl_componentCacheKey cl = []
                 \<and> stylesCache st' = stylesCache st \<and> classesCache st' = classesCache st)))"
proof (intro conjI impI)
  assume "\<not> production h"
  with off on show "resolveStyles h opts rv st = Inl ConfigurationError"
    by (simp add: resolveStyles_def checkPerformanceFlags_def)
next
  assume "production h"
  then show "resolveStyles h opts rv st \<noteq> Inl ConfigurationError"
    by (auto simp: resolveStyles_def checkPerformanceFlags_def mergedStyles_def themeStyles_def
        Let_def split: option.splits sum.splits)
next
  assume prod: "production h" and "theme opts \<noteq> None"
  then obtain ms where ms: "mergedStyles h opts = Inr ms"
    using mergedStyles_defined by blast
  from prod have chk: "checkPerformanceFlags h (performanceFlags opts) = None"
    by (simp add: checkPerformanceFlags_def)
  from off have nocache: "\<not> cacheEnabled (performanceFlags opts) (props opts)"
    by (simp add: cacheEnabled_def)
  show "\<exists>cl st'. resolveStyles h opts rv st = Inr (cl, st')
                 \<and> \<not> cl_cacheEnabled cl \<and> cachingTheme cl = None
                 \<and> cl_componentCacheKey cl = []
                 \<and> stylesCache st' = stylesCache st \<and> classesCache st' = classesCache st"
    unfolding resolveStyles_proceeds [OF chk ms]
    using nocache
    by (simp add: cachingTheme_def componentCacheKey_def initCaches_def split: option.splits)
qed

theorem misconfigured_flags_witness:
  "resolveStyles (sampleHost False False) (buttonOptions buttonTheme flagsMisconfigured)
      (JPrim PUndefined) (freshState None) = Inl ConfigurationError
   \<and> (\<exists>cl st'. resolveStyles (sampleHost True False) (buttonOptions buttonTheme flagsMisconfigured)
        (JPrim PUndefined) (freshState None) = Inr (cl, st')
        \<and> \<not> cl_cacheEnabled cl)"
  using misconfigured_flags [of "buttonOptions buttonTheme flagsMisconfigured" "sampleHost False False"
      "JPrim PUndefined" "freshState None"]
    misconfigured_flags [of "buttonOptions buttonTheme flagsMisconfigured" "sampleHost True False"
      "JPrim PUndefined" "freshState None"]
  by (auto simp add: buttonOptions_def flagsMisconfigured_def sampleHost_def)

section \<open>C7: the class of the root slot\<close>

text \<open>
  C7, as stated, fails on the code: \<^verbatim>\<open>cx\<close> joins the segments as they are, so the
  spaces of a caller's class name stay. With the caller's class \<^verbatim>\<open>x  y \<close> (a doubled
  space inside, a space at the end) the class of the root slot has a doubled and a
  trailing space.
\<close>

theorem spaces_of_the_caller_kept:
  "returned (resolveAndReadClass (sampleHost False False) spacedOptions (JPrim PUndefined)
      ''root'' (freshState None)) = Some (Some ''ui-button gen-123 x  y '')
   \<and> \<not> tidy ''ui-button gen-123 x  y ''"
  by (simp add: resolveAndReadClass_def resolveStyles_def checkPerformanceFlags_def
      mergedStyles_def themeStyles_def componentStylesOf_def spacedOptions_def
      buttonOptions_def buttonTheme_def flagsNone_def sampleHost_def propsWith_def
      noInlineStylesOverrides_def cacheEnabled_def componentCacheKey_def initCaches_def
      classes_get.simps resolvedStyles_get.simps cachingTheme_def lazyEvaluationKey_def
      cachedStyle_def cachedClass_def resolvedStyles_set_data classes_set_data redStyle_def
      telemetryPartStart_def telemetryEnabled_def addElapsed_def debugOutput_def
      stylesData_def classesData_def style_at_def class_at_def slotClass_def cx_def
      store_get_def Let_def tidy_def)

text \<open>
  C7 (amended): every read of the class of the slot \<^verbatim>\<open>root\<close> returns the composition of
  the component's class name, the generated or cached class and the caller's class name:
  the truthy ones of the three, joined by single spaces; it has no leading, trailing or
  doubled space when none of the segments has one. The middle segment is the cached class
  on a cache hit (lines 241 to 243), the memoized class on a memo hit (lines 252 to 254)
  and otherwise the class rendered for the style value, or none for a falsy style value
  (lines 272 to 275). There the class read returns exactly when the style read does, and
  the style read returns when debug output is off, when the style cache or the style memo
  answers, or when the style function gives a truthy value. With \<^verbatim>\<open>ui-button\<close>,
  \<^verbatim>\<open>gen-123\<close> and \<^verbatim>\<open>custom\<close> the class is \<^verbatim>\<open>ui-button gen-123 custom\<close>. The memo
  property of the slot is a data property.
\<close>

theorem root_class_composition:
  assumes slot: "map_of (cl_mergedStyles cl) ''root'' = Some f"
    and plain: "map_of (cl_mergedStyles cl) (lazyEvaluationKey ''root'') = None"
  shows "(\<forall>e. cachedClass cl ''root'' st = Some e \<longrightarrow>
            classes_get (Suc n) h cl ''root'' st
              = returns (Some (cx [componentClassName (cl_options cl), e,
                                   className (props (cl_options cl))]))
                  (countCacheHit cl ''root'' st))
    \<and> (cachedClass cl ''root'' st = None
          \<and> truthy_class (classesData st (lazyEvaluationKey ''root'')) \<longrightarrow>
            classes_get (Suc n) h cl ''root'' st
              = returns (Some (cx [componentClassName (cl_options cl),
                                   classesData st (lazyEvaluationKey ''root''),
                                   className (props (cl_options cl))])) st)
    \<and> (cachedClass cl ''root'' st = None
          \<and> \<not> truthy_class (classesData st (lazyEvaluationKey ''root'')) \<longrightarrow>
         (case resolvedStyles_get n h cl ''root'' st of
            None \<Rightarrow> classes_get (Suc n) h cl ''root'' st = None
          | Some (Inl e) \<Rightarrow> classes_get (Suc n) h cl ''root'' st = throws e
          | Some (Inr (styleObj, st2)) \<Rightarrow>
              \<exists>st'. classes_get (Suc n) h cl ''root'' st =
                returns (Some (cx [componentClassName (cl_options cl),
                     if truthy_style styleObj
                     then Some (renderRule (cl_options cl) styleObj (cl_rendererParam cl)
                                  (store st2))
                     else None,
                     className (props (cl_options cl))])) st'))
    \<and> (cachedClass cl ''root'' st = None
          \<and> \<not> truthy_class (classesData st (lazyEvaluationKey ''root''))
          \<and> (\<not> debugOutput h \<or> cachedStyle cl ''root'' st \<noteq> None
              \<or> truthy_style (stylesData st (lazyEvaluationKey ''root''))
              \<or> truthy_style (fst (f (cl_styleParam cl) (store st)))) \<longrightarrow>
         (\<exists>styleObj st2 st'.
            resolvedStyles_get (Suc (Suc n)) h cl ''root'' st = returns styleObj st2
            \<and> classes_get (Suc (Suc (Suc n))) h cl ''root'' st =
                returns (Some (cx [componentClassName (cl_options cl),
                     if truthy_style styleObj
                     then Some (renderRule (cl_options cl) styleObj (cl_rendererParam cl)
                                  (store st2))
                     else None,
                     className (props (cl_options cl))])) st'))
    \<and> (\<forall>generated.
          cx [componentClassName (cl_options cl), generated, className (props (cl_options cl))]
            = join '' '' (map the (filter truthy_class
                [componentClassName (cl_options cl), generated,
                 className (props (cl_options cl))])))
    \<and> (\<forall>generated.
          (\<forall>a \<in> set [componentClassName (cl_options cl), generated,
                       className (props (cl_options cl))]. truthy_class a \<longrightarrow> tidy (the a))
          \<longrightarrow> tidy (cx [componentClassName (cl_options cl), generated,
                        className (props (cl_options cl))]))"
proof (intro conjI allI impI)
  fix e
  assume "cachedClass cl ''root'' st = Some e"
  then show "classes_get (Suc n) h cl ''root'' st
      = returns (Some (cx [componentClassName (cl_options cl), e,
                           className (props (cl_options cl))]))
          (countCacheHit cl ''root'' st)"
    by (simp add: class_cache_hit [OF slot] slotClass_def)
next
  assume "cachedClass cl ''root'' st = None
      \<and> truthy_class (classesData st (lazyEvaluationKey ''root''))"
  then show "classes_get (Suc n) h cl ''root'' st
      = returns (Some (cx [componentClassName (cl_options cl),
                           classesData st (lazyEvaluationKey ''root''),
                           className (props (cl_options cl))])) st"
    by (simp add: class_memo_hit [OF slot plain] slotClass_def)
next
  fix m
  assume miss: "cachedClass cl ''root'' st = None
      \<and> \<not> truthy_class (classesData st (lazyEvaluationKey ''root''))"
  then have falsy: "cx [a, classesData st (lazyEvaluationKey ''root''), b] = cx [a, None, b]" for a b
    by (cases "classesData st (lazyEvaluationKey ''root'')") (simp_all add: cx_def)
  have follows: "case resolvedStyles_get m h cl ''root'' st of
            None \<Rightarrow> classes_get (Suc m) h cl ''root'' st = None
          | Some (Inl e) \<Rightarrow> classes_get (Suc m) h cl ''root'' st = throws e
          | Some (Inr (styleObj, st2)) \<Rightarrow>
              \<exists>st'. classes_get (Suc m) h cl ''root'' st =
                returns (Some (cx [componentClassName (cl_options cl),
                     if truthy_style styleObj
                     then Some (renderRule (cl_options cl) styleObj (cl_rendererParam cl)
                                  (store st2))
                     else None,
                     className (props (cl_options cl))])) st'" for m
    using class_read_follows_style [OF slot plain, of st m h] miss falsy
    by (auto simp: slotClass_def split: option.splits sum.splits)
  show "case resolvedStyles_get n h cl ''root'' st of
            None \<Rightarrow> classes_get (Suc n) h cl ''root'' st = None
          | Some (Inl e) \<Rightarrow> classes_get (Suc n) h cl ''root'' st = throws e
          | Some (Inr (styleObj, st2)) \<Rightarrow>
              \<exists>st'. classes_get (Suc n) h cl ''root'' st =
                returns (Some (cx [componentClassName (cl_options cl),
                     if truthy_style styleObj
                     then Some (renderRule (cl_options cl) styleObj (cl_rendererParam cl)
                                  (store st2))
                     else None,
                     className (props (cl_options cl))])) st'"
    by (rule follows)
next
  assume a: "cachedClass cl ''root'' st = None
      \<and> \<not> truthy_class (classesData st (lazyEvaluationKey ''root''))
      \<and> (\<not> debugOutput h \<or> cachedStyle cl ''root'' st \<noteq> None
          \<or> truthy_style (stylesData st (lazyEvaluationKey ''root''))
          \<or> truthy_style (fst (f (cl_styleParam cl) (store st))))"
  then have falsy: "cx [a, classesData st (lazyEvaluationKey ''root''), b] = cx [a, None, b]" for a b
    by (cases "classesData st (lazyEvaluationKey ''root'')") (simp_all add: cx_def)
  from a obtain styleObj st2
    where style: "resolvedStyles_get (Suc (Suc n)) h cl ''root'' st = returns styleObj st2"
    using style_read_returns [OF slot plain, of h st n] by blast
  then have "\<exists>st'. classes_get (Suc (Suc (Suc n))) h cl ''root'' st =
                returns (Some (cx [componentClassName (cl_options cl),
                     if truthy_style styleObj
                     then Some (renderRule (cl_options cl) styleObj (cl_rendererParam cl)
                                  (store st2))
                     else None,
                     className (props (cl_options cl))])) st'"
    using class_read_follows_style [OF slot plain, of st "Suc (Suc n)" h] a falsy
    by (auto simp: slotClass_def returns_def)
  with style show "\<exists>styleObj st2 st'.
            resolvedStyles_get (Suc (Suc n)) h cl ''root'' st = returns styleObj st2
            \<and> classes_get (Suc (Suc (Suc n))) h cl ''root'' st =
                returns (Some (cx [componentClassName (cl_options cl),
                     if truthy_style styleObj
                     then Some (renderRule (cl_options cl) styleObj (cl_rendererParam cl)
                                  (store st2))
                     else None,
                     className (props (cl_options cl))])) st'"
    by blast
next
  fix generated
  show "cx [componentClassName (cl_options cl), generated, className (props (cl_options cl))]
            = join '' '' (map the (filter truthy_class
                [componentClassName (cl_options cl), generated,
                 className (props (cl_options cl))]))"
    by (simp add: cx_def)
next
  fix generated
  assume "\<forall>a \<in> set [componentClassName (cl_options cl), generated,
                       className (props (cl_options cl))]. truthy_class a \<longrightarrow> tidy (the a)"
  then show "tidy (cx [componentClassName (cl_options cl), generated,
                        className (props (cl_options cl))])"
    by (rule tidy_cx)
qed

theorem root_class_composition_witness:
  "(\<exists>st'. classes_get (Suc (Suc (Suc 0))) (sampleHost False False) cachingClosure ''root''
            (cachingState None) = returns (Some ''ui-button gen-123 custom'') st')
   \<and> classes_get (Suc 0) (sampleHost False False) cachingClosure ''root''
        (classes_set cachingClosure ''root'' (Some ''seeded'') (cachingState None))
      = returns (Some ''ui-button seeded custom'')
          (countCacheHit cachingClosure ''root''
             (classes_set cachingClosure ''root'' (Some ''seeded'') (cachingState None)))
   \<and> classes_get (Suc 0) (sampleHost False False) plainClosure ''root''
        (classes_set plainClosure ''root'' (Some ''memoized'') (freshState None))
      = returns (Some ''ui-button memoized custom'')
          (classes_set plainClosure ''root'' (Some ''memoized'') (freshState None))
   \<and> (\<exists>st'. classes_get (Suc (Suc 0)) (sampleHost False False) cachingClosure ''root''
            (cachingState None) = returns (Some ''ui-button gen-123 custom'') st')
   \<and> tidy ''ui-button gen-123 custom''"
proof -
  let ?h = "sampleHost False False"
  note caching = root_class_composition [OF cachingClosure_facts(2) cachingClosure_facts(4),
      where h = ?h]
  note plain = root_class_composition [OF plainClosure_facts(2) plainClosure_facts(4),
      where h = ?h]
  have memo: "\<not> truthy_style (stylesData (cachingState None) (lazyEvaluationKey ''root''))"
    and cmemo: "\<not> truthy_class (classesData (cachingState None) (lazyEvaluationKey ''root''))"
    by (simp_all add: cachingState_misses)
  have style: "resolvedStyles_get (Suc (Suc 0)) ?h cachingClosure ''root'' (cachingState None)
      = returns styleObj st2 \<Longrightarrow> styleObj = SRef 0
          \<and> store_get (store st2) 0 ''color'' = Some (JPrim (PStr ''red''))" for styleObj st2
    unfolding style_compute [OF cachingClosure_facts(2) cachingClosure_facts(4)
        cachingState_misses(1) memo not_debug_sampleHost]
    by (auto simp: cachingState_misses redStyle_def store_get_def)
  from caching [of "cachingState None" 0, THEN conjunct2, THEN conjunct2, THEN conjunct2,
      THEN conjunct1] cmemo
  obtain styleObj st2 st' where
    "resolvedStyles_get (Suc (Suc 0)) ?h cachingClosure ''root'' (cachingState None)
       = returns styleObj st2"
    and run: "classes_get (Suc (Suc (Suc 0))) ?h cachingClosure ''root'' (cachingState None) =
        returns (Some (cx [componentClassName (cl_options cachingClosure),
             if truthy_style styleObj
             then Some (renderRule (cl_options cachingClosure) styleObj
                          (cl_rendererParam cachingClosure) (store st2))
             else None,
             className (props (cl_options cachingClosure))])) st'"
    by (auto simp: cachingState_misses)
  with style [of styleObj st2]
  have rendered: "\<exists>st'. classes_get (Suc (Suc (Suc 0))) ?h cachingClosure ''root''
      (cachingState None) = returns (Some ''ui-button gen-123 custom'') st'"
    by (auto simp: cachingClosure_names cx_def)
  let ?seeded = "classes_set cachingClosure ''root'' (Some ''seeded'') (cachingState None)"
  have hit: "cachedClass cachingClosure ''root'' ?seeded = Some (Some ''seeded'')"
    using classes_set_entry [OF cachingClosure_facts(2) cachingClosure_facts(1),
        of "Some ''seeded''" "cachingState None"]
    by (simp add: cachedClass_def cachingClosure_facts(1) class_at_def)
  from caching [of ?seeded 0, THEN conjunct1, rule_format, OF hit]
  have cached: "classes_get (Suc 0) ?h cachingClosure ''root'' ?seeded
      = returns (Some ''ui-button seeded custom'') (countCacheHit cachingClosure ''root'' ?seeded)"
    by (simp add: cachingClosure_names cx_def)
  let ?memoized = "classes_set plainClosure ''root'' (Some ''memoized'') (freshState None)"
  have st: "?memoized
      = (freshState None)\<lparr>classes := [lazyEvaluationKey ''root'' \<mapsto> Some ''memoized'']\<rparr>"
    apply (subst classes_set.simps)
    apply (simp add: plainClosure_facts classes_set_data)
    done
  have inmemo: "classesData ?memoized (lazyEvaluationKey ''root'') = Some ''memoized''"
    by (simp add: st classesData_def class_at_def)
  from plain [of ?memoized 0, THEN conjunct2, THEN conjunct1]
  have memoized: "classes_get (Suc 0) ?h plainClosure ''root'' ?memoized
      = returns (Some ''ui-button memoized custom'') ?memoized"
    by (simp add: inmemo no_caching_misses plainClosure_facts cx_def plainClosure_names)
  have first: "resolvedStyles_get (Suc 0) ?h cachingClosure ''root'' (cachingState None)
      = returns (SRef 0)
          (addElapsed ?h (primaryDisplayName (cl_options cachingClosure))
             (fst (telemetryPartStart ?h (cachingState None)))
             (\<lambda>ms perf. perf\<lparr>msResolveStylesTotal := msResolveStylesTotal perf + ms\<rparr>)
             ((snd (telemetryPartStart ?h (cachingState None)))
                \<lparr>store := snd (redStyle (cl_styleParam cachingClosure) []),
                 styleCalls := styleCalls (cachingState None) @ [''root''],
                 resolvedStyles := (resolvedStyles (cachingState None))
                    (lazyEvaluationKey ''root'' \<mapsto> SRef 0),
                 stylesCache := (stylesCache (cachingState None))
                    (1 \<mapsto> (themeCache (stylesCache (cachingState None)) 1)
                       (slotCacheKey cachingClosure ''root'' \<mapsto> SRef 0))\<rparr>))"
    unfolding style_compute [OF cachingClosure_facts(2) cachingClosure_facts(4)
        cachingState_misses(1) memo not_debug_sampleHost]
    by (simp add: cachingState_misses redStyle_def cachingClosure_facts(1))
  from caching [of "cachingState None" "Suc 0", THEN conjunct2, THEN conjunct2, THEN conjunct1]
    cmemo
  have nofuel: "\<exists>st'. classes_get (Suc (Suc 0)) ?h cachingClosure ''root'' (cachingState None)
      = returns (Some ''ui-button gen-123 custom'') st'"
    unfolding first
    by (simp add: cachingState_misses returns_def cachingClosure_names cx_def redStyle_def
        store_get_def)
  from caching [of "cachingState None" 0, THEN conjunct2, THEN conjunct2, THEN conjunct2,
      THEN conjunct2, THEN conjunct2, rule_format, of "Some ''gen-123''"]
  have tidy: "tidy ''ui-button gen-123 custom''"
    by (simp add: cachingClosure_names cx_def tidy_def)
  from rendered cached memoized nofuel tidy show ?thesis
    by blast
qed

section \<open>C8: debug output\<close>

text \<open>
  C8: outside production and with the debug flag on, when the style function of a slot
  returns a style object that carries the payload \<^verbatim>\<open>_debug\<close>, the read moves the payload
  into the debug mapping under the slot name and deletes it from the object. The object
  the caller gets, the one the memo holds and the one the cache holds are this same
  object, so none of them shows the payload; its other declarations stay, and a later
  read returns it again.
\<close>

theorem debug_payload_extracted:
  assumes slot: "map_of (cl_mergedStyles cl) s = Some f"
    and plain: "map_of (cl_mergedStyles cl) (lazyEvaluationKey s) = None"
    and miss: "cachedStyle cl s st = None"
    and memo: "\<not> truthy_style (stylesData st (lazyEvaluationKey s))"
    and debug: "debugOutput h"
    and obj: "f (cl_styleParam cl) (store st) = (SRef a, sto)"
    and valid: "a < length sto"
    and payload: "(sto ! a) ''_debug'' = Some payload"
  shows "\<exists>st'. resolvedStyles_get (Suc (Suc n)) h cl s st = returns (SRef a) st'
      \<and> resolvedStylesDebug st' s = Some payload
      \<and> store_get (store st') a = (sto ! a)(''_debug'' := None)
      \<and> store_get (store st') a ''_debug'' = None
      \<and> resolvedStyles st' (lazyEvaluationKey s) = Some (SRef a)
      \<and> (\<forall>t. cachingTheme cl = Some t \<longrightarrow>
            themeCache (stylesCache st') t (slotCacheKey cl s) = Some (SRef a))
      \<and> resolvedStyles_get (Suc k) h cl s st' = returns (SRef a) st'"
proof -
  let ?st' = "addElapsed h (primaryDisplayName (cl_options cl)) (fst (telemetryPartStart h st))
         (\<lambda>ms perf. perf\<lparr>msResolveStylesTotal := msResolveStylesTotal perf + ms\<rparr>)
         ((snd (telemetryPartStart h st))
            \<lparr>store := (if a < length sto then sto[a := (sto ! a)(''_debug'' := None)] else sto),
             styleCalls := styleCalls st @ [s],
             resolvedStyles := (resolvedStyles st)(lazyEvaluationKey s \<mapsto> SRef a),
             resolvedStylesDebug := (resolvedStylesDebug st)
               (s \<mapsto> (case store_get sto a ''_debug'' of
                          None \<Rightarrow> JPrim PUndefined | Some v \<Rightarrow> v)),
             stylesCache := (case cachingTheme cl of
                  None \<Rightarrow> stylesCache st
                | Some t \<Rightarrow> (stylesCache st)
                    (t \<mapsto> (themeCache (stylesCache st) t)(slotCacheKey cl s \<mapsto> SRef a)))\<rparr>)"
  have run: "resolvedStyles_get (Suc (Suc n)) h cl s st = returns (SRef a) ?st'"
    by (rule style_compute_debug [OF slot plain miss memo debug obj])
  have dbg: "resolvedStylesDebug ?st' s = Some payload"
    using valid payload by (simp add: store_get_def)
  have sto: "store_get (store ?st') a = (sto ! a)(''_debug'' := None)"
    using valid by (simp add: store_get_def)
  have mem: "resolvedStyles ?st' (lazyEvaluationKey s) = Some (SRef a)"
    by simp
  have cache: "themeCache (stylesCache ?st') t (slotCacheKey cl s) = Some (SRef a)"
    if "cachingTheme cl = Some t" for t
    using that by (simp add: themeCache_def)
  have again: "resolvedStyles_get (Suc k) h cl s ?st' = returns (SRef a) ?st'"
  proof (cases "cachingTheme cl")
    case None
    then show ?thesis
      using mem by (intro style_settled_memo [OF slot plain]) simp_all
  next
    case (Some t)
    then show ?thesis
      using cache [OF Some] by (intro style_read_cached [OF Some slot]) simp_all
  qed
  from run dbg sto mem cache again show ?thesis
    by (intro exI [of _ ?st']) simp
qed

theorem debug_payload_extracted_witness:
  "\<exists>st'. resolvedStyles_get (Suc (Suc 0)) (sampleHost False True) cachingClosure ''root''
            (cachingState None) = returns (SRef 0) st'
      \<and> resolvedStylesDebug st' ''root''
          = Some (JObject False [(''0'', JObject True [(''styles'', JObject True [])])])
      \<and> store_get (store st') 0 ''_debug'' = None
      \<and> store_get (store st') 0 ''color'' = Some (JPrim (PStr ''red''))
      \<and> themeCache (stylesCache st') 1 ''Button:{}::falsefalseroot'' = Some (SRef 0)"
proof -
  have debug: "debugOutput (sampleHost False True)"
    by (simp add: debugOutput_def sampleHost_def)
  have obj: "redStyle (cl_styleParam cachingClosure) (store (cachingState None))
      = (SRef 0, [[''color'' \<mapsto> JPrim (PStr ''red''),
              ''_debug'' \<mapsto> JObject False [(''0'', JObject True [(''styles'', JObject True [])])]]])"
    by (simp add: redStyle_def cachingState_misses)
  have memo: "\<not> truthy_style (stylesData (cachingState None) (lazyEvaluationKey ''root''))"
    by (simp add: cachingState_misses)
  from debug_payload_extracted [OF cachingClosure_facts(2) cachingClosure_facts(4)
      cachingState_misses(1) memo debug obj, of "JObject False [(''0'', JObject True [(''styles'', JObject True [])])]" 0 0]
  show ?thesis
    by (auto simp: cachingClosure_facts)
qed

section \<open>C9: a theme without a style set\<close>

text \<open>
  C9, as stated, fails on the code: the theme declares no style set at all and the one
  display name is \<^verbatim>\<open>toString\<close>. The property read of line 97 finds the function every
  object inherits under that name, which is truthy, so the default set is not
  substituted: the call returns without a slot, and the class of \<^verbatim>\<open>root\<close> reads as
  \<^verbatim>\<open>undefined\<close>.
\<close>

theorem inherited_name_without_root_slot:
  "componentStyles bareTheme ''toString'' = None
   \<and> resolveStyles (sampleHost False False) toStringOptions (JPrim PUndefined) (freshState None)
       = Inr (inheritedClosure, freshState None)
   \<and> map fst (cl_mergedStyles inheritedClosure) = []
   \<and> classes_get (Suc 0) (sampleHost False False) inheritedClosure ''root'' (freshState None)
       = returns None (freshState None)"
  by (simp add: resolveStyles_def checkPerformanceFlags_def mergedStyles_def themeStyles_def
      componentStylesOf_def objectPrototype_def toStringOptions_def buttonOptions_def
      bareTheme_def flagsNone_def sampleHost_def propsWith_def noInlineStylesOverrides_def
      cacheEnabled_def inheritedClosure_def componentCacheKey_def initCaches_def
      freshState_def classes_get.simps classesData_def class_at_def)

text \<open>
  C9 (amended): when the theme declares no style set for any of the display names, and
  none of them is the name of a property that every object inherits (such as
  \<^verbatim>\<open>toString\<close> or \<^verbatim>\<open>constructor\<close>), then on the single-name and on the multiple-name
  path alike the style set taken from the theme is the default one: only the slot
  \<^verbatim>\<open>root\<close>, whose style function allocates a new object without properties and returns
  it. The call does not fail for it: when the configuration check passes it returns, with
  the default set as the merged set, or with the default set merged with the inline
  overrides.
\<close>

theorem missing_style_set:
  assumes th: "theme opts = Some t"
    and none: "\<forall>name \<in> set (allDisplayNames opts).
                 componentStyles t name = None \<and> name \<notin> set objectPrototype"
  shows "\<exists>root. themeStyles h opts = Inr (Prepared [(''root'', root)])
    \<and> (\<forall>param sto. root param sto = (SRef (length sto), sto @ [Map.empty]))
    \<and> (checkPerformanceFlags h (performanceFlags opts) = None \<longrightarrow>
         (\<exists>cl st'. resolveStyles h opts rv st = Inr (cl, st')
            \<and> cl_mergedStyles cl =
                (if noInlineStylesOverrides (props opts) then [(''root'', root)]
                 else mergeComponentStyles h
                        [Prepared [(''root'', root)],
                         labelled (design (props opts)) ''props.design'',
                         labelled (styles (props opts)) ''props.styles''])))"
proof -
  have undefined: "componentStylesOf t name = None" if "name \<in> set (allDisplayNames opts)" for name
    using none that by (simp add: componentStylesOf_def)
  then have filt: "List.map_filter (componentStylesOf t) (allDisplayNames opts) = []"
    by (induction "allDisplayNames opts") (auto simp: map_filter_def)
  have single: "length (allDisplayNames opts) = 1
      \<Longrightarrow> componentStylesOf t (allDisplayNames opts ! 0) = None"
    using undefined by (cases "allDisplayNames opts") auto
  have ts: "themeStyles h opts = Inr (Prepared [(''root'', emptyStyle)])"
    using th filt single by (simp add: themeStyles_def defaultStyles_def)
  have call: "\<exists>cl st'. resolveStyles h opts rv st = Inr (cl, st')
            \<and> cl_mergedStyles cl =
                (if noInlineStylesOverrides (props opts) then [(''root'', emptyStyle)]
                 else mergeComponentStyles h
                        [Prepared [(''root'', emptyStyle)],
                         labelled (design (props opts)) ''props.design'',
                         labelled (styles (props opts)) ''props.styles''])"
    if "checkPerformanceFlags h (performanceFlags opts) = None"
    using that ts by (simp add: resolveStyles_def mergedStyles_def)
  show ?thesis
    using ts call by (intro exI [of _ emptyStyle]) (simp add: emptyStyle_def)
qed

theorem missing_style_set_witness:
  "(\<exists>root. themeStyles (sampleHost False False) (buttonOptions bareTheme flagsNone)
              = Inr (Prepared [(''root'', root)])
         \<and> root (makeStyleParam (buttonOptions bareTheme flagsNone) (JPrim PUndefined)) []
              = (SRef 0, [Map.empty])
         \<and> (\<exists>cl st'. resolveStyles (sampleHost False False) (buttonOptions bareTheme flagsNone)
                (JPrim PUndefined) (freshState None) = Inr (cl, st')
              \<and> cl_mergedStyles cl = [(''root'', root)]))
   \<and> (\<exists>root. themeStyles (sampleHost False False)
                ((buttonOptions bareTheme flagsNone)\<lparr>allDisplayNames := [''Button'', ''Toggle'']\<rparr>)
              = Inr (Prepared [(''root'', root)])
         \<and> root (makeStyleParam (buttonOptions bareTheme flagsNone) (JPrim PUndefined)) []
              = (SRef 0, [Map.empty]))"
proof -
  let ?h = "sampleHost False False"
  let ?one = "buttonOptions bareTheme flagsNone"
  let ?two = "(buttonOptions bareTheme flagsNone)\<lparr>allDisplayNames := [''Button'', ''Toggle'']\<rparr>"
  have th: "theme ?one = Some bareTheme" "theme ?two = Some bareTheme"
    by (simp_all add: buttonOptions_def)
  have names: "\<forall>name \<in> set (allDisplayNames ?one).
                 componentStyles bareTheme name = None \<and> name \<notin> set objectPrototype"
    "\<forall>name \<in> set (allDisplayNames ?two).
                 componentStyles bareTheme name = None \<and> name \<notin> set objectPrototype"
    by (simp_all add: buttonOptions_def bareTheme_def objectPrototype_def)
  have chk: "checkPerformanceFlags ?h (performanceFlags ?one) = None"
    and inline: "noInlineStylesOverrides (props ?one)"
    by (simp_all add: checkPerformanceFlags_def buttonOptions_def flagsNone_def
        noInlineStylesOverrides_def propsWith_def)
  from missing_style_set [OF th(1) names(1), of ?h "JPrim PUndefined" "freshState None"] chk inline
  have single: "\<exists>root. themeStyles ?h ?one = Inr (Prepared [(''root'', root)])
         \<and> root (makeStyleParam ?one (JPrim PUndefined)) [] = (SRef 0, [Map.empty])
         \<and> (\<exists>cl st'. resolveStyles ?h ?one (JPrim PUndefined) (freshState None) = Inr (cl, st')
              \<and> cl_mergedStyles cl = [(''root'', root)])"
    by auto
  from missing_style_set [OF th(2) names(2), of ?h "JPrim PUndefined" "freshState None"]
  have multiple: "\<exists>root. themeStyles ?h ?two = Inr (Prepared [(''root'', root)])
         \<and> root (makeStyleParam ?one (JPrim PUndefined)) [] = (SRef 0, [Map.empty])"
    by auto
  from single multiple show ?thesis
    by blast
qed

section \<open>C10: a falsy style value\<close>

text \<open>
  C10, as stated, fails on the code: a class written to the accessor of the slot
  \<^verbatim>\<open>icon\<close> is what a read returns, although the style value of the slot is
  \<^verbatim>\<open>undefined\<close>; the claim has the read return \<^verbatim>\<open>undefined\<close>.
\<close>

theorem seeded_class_of_falsy_style:
  "returned (resolvedStyles_get (Suc 0) (sampleHost False False) plainClosure ''icon''
      (classes_set plainClosure ''icon'' (Some ''seeded'') (freshState None)))
     = Some (SPrim PUndefined)
   \<and> returned (classes_get (Suc (Suc 0)) (sampleHost False False) plainClosure ''icon''
      (classes_set plainClosure ''icon'' (Some ''seeded'') (freshState None)))
     = Some (Some ''seeded'')"
proof -
  let ?st = "classes_set plainClosure ''icon'' (Some ''seeded'') (freshState None)"
  have st: "?st = (freshState None)\<lparr>classes := [lazyEvaluationKey ''icon'' \<mapsto> Some ''seeded'']\<rparr>"
    apply (subst classes_set.simps)
    apply (simp add: plainClosure_facts classes_set_data)
    done
  have memo: "\<not> truthy_style (stylesData ?st (lazyEvaluationKey ''icon''))"
    by (simp add: st stylesData_def style_at_def)
  have cmemo: "truthy_class (classesData ?st (lazyEvaluationKey ''icon''))"
    by (simp add: st classesData_def class_at_def)
  have style: "returned (resolvedStyles_get (Suc 0) (sampleHost False False) plainClosure ''icon'' ?st)
      = Some (SPrim PUndefined)"
    by (simp add: style_compute [OF plainClosure_facts(3) plainClosure_facts(5)
          no_caching_misses(1) [OF plainClosure_facts(1)] memo] undefinedStyle_def)
  have cls: "returned (classes_get (Suc (Suc 0)) (sampleHost False False) plainClosure ''icon'' ?st)
      = Some (Some ''seeded'')"
    by (simp add: class_memo_hit [OF plainClosure_facts(3) plainClosure_facts(5)
          no_caching_misses(2) [OF plainClosure_facts(1)] cmemo] slotClass_def)
       (simp add: st classesData_def class_at_def)
  from style cls show ?thesis by simp
qed

text \<open>
  C10 (amended): if reading the style value of a slot yields a falsy value, then reading
  the class name of the slot does not invoke the renderer and writes nothing to the class
  cache or to the class memo; and when no class is cached or memoized for the slot, the
  class name returned is \<^verbatim>\<open>undefined\<close> for a slot other than \<^verbatim>\<open>root\<close> and, for
  \<^verbatim>\<open>root\<close>, the composition of the component's and the caller's class names only.
\<close>

theorem falsy_style_not_rendered:
  assumes slot: "map_of (cl_mergedStyles cl) s = Some f"
    and plain: "map_of (cl_mergedStyles cl) (lazyEvaluationKey s) = None"
    and style: "resolvedStyles_get n h cl s st = returns styleObj st'"
    and falsy: "\<not> truthy_style styleObj"
  shows "\<exists>r st''. classes_get (Suc n) h cl s st = returns r st''
      \<and> renderCalls st'' = renderCalls st
      \<and> classesCache st'' = classesCache st
      \<and> classes st'' = classes st
      \<and> (cachedClass cl s st = None \<and> classesData st (lazyEvaluationKey s) = None \<longrightarrow>
           r = (if s = ''root''
                then Some (cx [componentClassName (cl_options cl),
                               className (props (cl_options cl))])
                else None))"
proof (cases "cachedClass cl s st")
  case (Some e)
  then show ?thesis
    by (simp add: class_cache_hit [OF slot Some])
next
  case None
  show ?thesis
  proof (cases "truthy_class (classesData st (lazyEvaluationKey s))")
    case True
    then show ?thesis
      by (auto simp: class_memo_hit [OF slot plain None True])
  next
    case False
    note same = style_get_classes [OF style]
    have "classesData st' (lazyEvaluationKey s) = classesData st (lazyEvaluationKey s)"
      by (simp add: classesData_def same)
    then show ?thesis
      by (simp add: class_not_rendered [OF slot plain None False style falsy] same
          slotClass_def)
  qed
qed

theorem falsy_style_not_rendered_witness:
  "\<exists>st''. classes_get (Suc (Suc 0)) (sampleHost False False) plainClosure ''icon''
             (freshState None) = returns None st''
      \<and> renderCalls st'' = [] \<and> classesCache st'' = Map.empty \<and> classes st'' = Map.empty"
proof -
  have memo: "\<not> truthy_style (stylesData (freshState None) (lazyEvaluationKey ''icon''))"
    by simp
  have style: "resolvedStyles_get (Suc 0) (sampleHost False False) plainClosure ''icon''
      (freshState None) = returns (SPrim PUndefined)
        (addElapsed (sampleHost False False) (primaryDisplayName (cl_options plainClosure))
          (fst (telemetryPartStart (sampleHost False False) (freshState None)))
          (\<lambda>ms perf. perf\<lparr>msResolveStylesTotal := msResolveStylesTotal perf + ms\<rparr>)
          ((snd (telemetryPartStart (sampleHost False False) (freshState None)))
            \<lparr>store := [], styleCalls := [''icon''],
             resolvedStyles := [lazyEvaluationKey ''icon'' \<mapsto> SPrim PUndefined],
             stylesCache := stylesCache (freshState None)\<rparr>))"
    by (simp add: style_compute [OF plainClosure_facts(3) plainClosure_facts(5)
          no_caching_misses(1) [OF plainClosure_facts(1)] memo] undefinedStyle_def
          plainClosure_facts)
  from falsy_style_not_rendered [OF plainClosure_facts(3) plainClosure_facts(5) style]
  show ?thesis
    by (auto simp: no_caching_misses plainClosure_facts)
qed

end
